theory Spec2Isabelle
  imports Complex_Main
begin

section \<open>The client-side translation engine (class I18nStatic)\<close>

text \<open>
  A shallow embedding of the class \<open>I18nStatic\<close> of the i18n client script: the constants
  of the script, the values a parsed dictionary file holds, the document the engine writes
  to, and the browser state it reads. Every method becomes a function on an explicit
  state; an exception of the source is a value of the model.
\<close>

subsection \<open>Constants of the script\<close>

definition SUPPORTED_LANGUAGES :: "string list" where
  "SUPPORTED_LANGUAGES = [''en'', ''es'', ''fr'', ''pt'']"

definition DEFAULT_LANGUAGE :: string where
  "DEFAULT_LANGUAGE = ''es''"

definition STORAGE_KEY :: string where
  "STORAGE_KEY = ''i18nextLng''"

subsection \<open>JavaScript values read from JSON\<close>

text \<open>
  What \<open>response.json()\<close> and \<open>JSON.parse\<close> produce, and what a member access on such
  data can reach. An object is the list of its own members in enumeration order;
  \<open>undefined\<close> is \<open>None\<close> of a \<open>jsval option\<close>. Numbers are only ever tested for being
  zero, so an integer stands for them. The last three values are never in parsed data: they
  are what the members inherited from the prototypes hold, a built-in function, and the
  objects \<open>Object.prototype\<close> and \<open>Array.prototype\<close> themselves.
\<close>

datatype jsval =
    JNull
  | JBool bool
  | JNum int
  | JStr string
  | JArr "jsval list"
  | JObj "(string \<times> jsval) list"
  | JFunction
  | JObjectPrototype
  | JArrayPrototype

text \<open>Truthiness, as \<open>||\<close>, \<open>&&\<close> and \<open>!\<close> test it.\<close>

fun truthy :: "jsval \<Rightarrow> bool" where
  "truthy JNull = False"
| "truthy (JBool b) = b"
| "truthy (JNum n) = (n \<noteq> 0)"
| "truthy (JStr s) = (s \<noteq> [])"
| "truthy (JArr xs) = True"
| "truthy (JObj kvs) = True"
| "truthy JFunction = True"
| "truthy JObjectPrototype = True"
| "truthy JArrayPrototype = True"

text \<open>
  \<open>typeof v === 'object'\<close>: true of \<open>null\<close>, arrays and objects, the two prototypes among
  them; of a function \<open>typeof\<close> is \<open>'function'\<close>.
\<close>

fun typeofObject :: "jsval \<Rightarrow> bool" where
  "typeofObject JNull = True"
| "typeofObject (JArr xs) = True"
| "typeofObject (JObj kvs) = True"
| "typeofObject JObjectPrototype = True"
| "typeofObject JArrayPrototype = True"
| "typeofObject v = False"

text \<open>The decimal numeral of an array index, as a property name.\<close>

fun showNat :: "nat \<Rightarrow> string" where
  "showNat n =
     (if n < 10 then [char_of (48 + n)]
      else showNat (n div 10) @ [char_of (48 + n mod 10)])"

declare showNat.simps [simp del]

text \<open>The own members of an array: its elements and its length.\<close>

definition arrayGet :: "jsval list \<Rightarrow> string \<Rightarrow> jsval option" where
  "arrayGet xs k =
     (case find (\<lambda>i. showNat i = k) [0 ..< length xs] of
        Some i \<Rightarrow> Some (xs ! i)
      | None \<Rightarrow> if k = ''length'' then Some (JNum (int (length xs))) else None)"

text \<open>
  The members every object inherits from \<open>Object.prototype\<close>, and those an array inherits
  from \<open>Array.prototype\<close> (ECMAScript 2023); each holds a function. The accessor
  \<open>__proto__\<close> gives the prototype of the value it is read on.
\<close>

definition objectPrototypeMembers :: "string list" where
  "objectPrototypeMembers =
     [''constructor'', ''__defineGetter__'', ''__defineSetter__'', ''hasOwnProperty'',
      ''__lookupGetter__'', ''__lookupSetter__'', ''isPrototypeOf'', ''propertyIsEnumerable'',
      ''toString'', ''valueOf'', ''toLocaleString'']"

definition arrayPrototypeMembers :: "string list" where
  "arrayPrototypeMembers =
     [''constructor'', ''at'', ''concat'', ''copyWithin'', ''fill'', ''find'', ''findIndex'',
      ''findLast'', ''findLastIndex'', ''lastIndexOf'', ''pop'', ''push'', ''reverse'',
      ''shift'', ''unshift'', ''slice'', ''sort'', ''splice'', ''includes'', ''indexOf'',
      ''join'', ''keys'', ''entries'', ''values'', ''forEach'', ''filter'', ''flat'',
      ''flatMap'', ''map'', ''every'', ''some'', ''reduce'', ''reduceRight'',
      ''toLocaleString'', ''toString'', ''toReversed'', ''toSorted'', ''toSpliced'', ''with'']"

text \<open>A member read on \<open>Object.prototype\<close> itself, whose own prototype is \<open>null\<close>.\<close>

definition fromObjectPrototype :: "string \<Rightarrow> jsval option" where
  "fromObjectPrototype k =
     (if k = ''__proto__'' then Some JNull
      else if k \<in> set objectPrototypeMembers then Some JFunction
      else None)"

text \<open>A member an object does not own: looked up in \<open>Object.prototype\<close>.\<close>

definition inheritedByObject :: "string \<Rightarrow> jsval option" where
  "inheritedByObject k =
     (if k = ''__proto__'' then Some JObjectPrototype
      else if k \<in> set objectPrototypeMembers then Some JFunction
      else None)"

text \<open>
  A member read on \<open>Array.prototype\<close> itself, an empty array whose prototype is
  \<open>Object.prototype\<close>.
\<close>

definition fromArrayPrototype :: "string \<Rightarrow> jsval option" where
  "fromArrayPrototype k =
     (if k = ''length'' then Some (JNum 0)
      else if k \<in> set arrayPrototypeMembers then Some JFunction
      else inheritedByObject k)"

text \<open>
  A member an array does not own: looked up in \<open>Array.prototype\<close>, then in
  \<open>Object.prototype\<close>.
\<close>

definition inheritedByArray :: "string \<Rightarrow> jsval option" where
  "inheritedByArray k =
     (if k = ''__proto__'' then Some JArrayPrototype
      else if k \<in> set arrayPrototypeMembers then Some JFunction
      else if k \<in> set objectPrototypeMembers then Some JFunction
      else None)"

text \<open>The own member of a name, of an object or an array of parsed data.\<close>

fun ownMember :: "jsval \<Rightarrow> string \<Rightarrow> jsval option" where
  "ownMember (JObj kvs) k = map_of kvs k"
| "ownMember (JArr xs) k = arrayGet xs k"
| "ownMember v k = None"

text \<open>
  \<open>value[k]\<close> on a value that passed the test \<open>value && typeof value === 'object'\<close>: the own
  member of that name, or else the inherited one.
\<close>

fun getProp :: "jsval \<Rightarrow> string \<Rightarrow> jsval option" where
  "getProp (JObj kvs) k =
     (case ownMember (JObj kvs) k of Some v \<Rightarrow> Some v | None \<Rightarrow> inheritedByObject k)"
| "getProp (JArr xs) k =
     (case ownMember (JArr xs) k of Some v \<Rightarrow> Some v | None \<Rightarrow> inheritedByArray k)"
| "getProp JObjectPrototype k = fromObjectPrototype k"
| "getProp JArrayPrototype k = fromArrayPrototype k"
| "getProp v k = None"

text \<open>\<open>a || b\<close> where \<open>a\<close> may be \<open>undefined\<close>.\<close>

definition orElse :: "jsval option \<Rightarrow> jsval \<Rightarrow> jsval" where
  "orElse a b = (case a of Some v \<Rightarrow> if truthy v then v else b | None \<Rightarrow> b)"

text \<open>\<open>key.split('.')\<close>: never the empty list, an empty segment between two dots.\<close>

fun splitDot :: "string \<Rightarrow> string list" where
  "splitDot [] = [[]]"
| "splitDot (c # cs) =
     (if c = CHR ''.'' then [] # splitDot cs
      else (case splitDot cs of
              seg # segs \<Rightarrow> (c # seg) # segs
            | [] \<Rightarrow> [[c]]))"

subsection \<open>The document\<close>

text \<open>
  A node is a text node, a comment or an element with its tag name (lower case, as
  \<open>localName\<close> gives it), its attributes and its child nodes. The class an element is an
  instance of (\<open>HTMLInputElement\<close>, \<open>HTMLTextAreaElement\<close>, \<open>HTMLOptionElement\<close>) is read
  from its tag.
\<close>

datatype node =
    TextNode string
  | CommentNode string
  | Element (tag: string) (attrs: "(string \<times> string) list") (childNodes: "node list")

subsection \<open>The browser and the engine\<close>

text \<open>Reading a source of the browser either gives a value or raises.\<close>

datatype 'a access = Throws | Gives 'a

text \<open>
  \<open>localStorage\<close> is undefined, or an object whose \<open>getItem\<close> and \<open>setItem\<close> may raise
  (storage blocked, quota exceeded); \<open>item\<close> is the value under \<open>STORAGE_KEY\<close>.
\<close>

datatype storage =
    StorageUndefined
  | Storage (readable: bool) (writable: bool) (item: "string option")

text \<open>
  The answer to \<open>fetch(url)\<close>: the request fails, or a response with its \<open>ok\<close> flag and
  its body (\<open>None\<close> when \<open>response.json()\<close> rejects).
\<close>

datatype response = NetworkError | Response bool "jsval option"

text \<open>
  A subscriber is opaque: it has an identity, and for a given locale code it returns or
  raises. Subscribers are taken not to call back into the engine.
\<close>

record callback =
  cbId :: nat
  cbRaises :: "string \<Rightarrow> bool"

text \<open>
  The state: the fields of the class (\<open>currentLang\<close> to \<open>observer\<close>; \<open>dictionaries\<close> is the
  field \<open>this.translations\<close>, whose name is a keyword here; the observer is
  \<open>null\<close>, or a mutation observer that is connected or not), the browser (the three sources
  of the locale, the document with its title and whether it is still loading, the network
  and the host's parsers and its test of attribute names), and what the engine did to the
  outside (requests sent, subscriber calls, events dispatched). Messages written to the
  console are not part of the state. \<open>document.title\<close> is kept as a field of its own.
\<close>

record state =
  currentLang :: string
  dictionaries :: "string \<rightharpoonup> jsval"
  initialized :: bool
  observers :: "callback list"
  isApplying :: bool
  observer :: "bool option"
  urlLang :: "string option access"
  localStorage :: storage
  navigatorLanguage :: "string option access"
  documentElement :: "node option"
  title :: string
  documentLoading :: bool
  network :: "string \<Rightarrow> response"
  parseHTML :: "string \<Rightarrow> node list"
  parseJSON :: "string \<Rightarrow> jsval option"
  validAttributeName :: "string \<Rightarrow> bool"
  fetched :: "string list"
  calls :: "(nat \<times> string) list"
  events :: "string list"

subsection \<open>getTranslation\<close>

text \<open>\<open>lang || this.currentLang\<close>: \<open>null\<close> and the empty string give the active locale.\<close>

definition targetLang :: "state \<Rightarrow> string option \<Rightarrow> string" where
  "targetLang s lang =
     (case lang of None \<Rightarrow> currentLang s | Some l \<Rightarrow> if l = [] then currentLang s else l)"

text \<open>
  The loop over the segments: the value is indexed while it is a truthy object; otherwise
  it becomes \<open>undefined\<close> and the loop is left.
\<close>

fun walkKeys :: "jsval option \<Rightarrow> string list \<Rightarrow> jsval option" where
  "walkKeys v [] = v"
| "walkKeys v (k # ks) =
     (case v of
        Some d \<Rightarrow> if truthy d \<and> typeofObject d then walkKeys (getProp d k) ks else None
      | None \<Rightarrow> None)"

definition getTranslation :: "state \<Rightarrow> string option \<Rightarrow> string option \<Rightarrow> string" where
  "getTranslation s key lang =
     (case key of
        None \<Rightarrow> []
      | Some k \<Rightarrow>
          if k = [] then []
          else
            let target = targetLang s lang;
                dict = orElse (dictionaries s target)
                         (orElse (dictionaries s DEFAULT_LANGUAGE) (JObj []));
                keys = splitDot k;
                v = walkKeys (Some dict) keys;
                v' = (if v = None \<and> target \<noteq> DEFAULT_LANGUAGE
                      then walkKeys (Some (orElse (dictionaries s DEFAULT_LANGUAGE) (JObj []))) keys
                      else v)
            in (case v' of Some (JStr t) \<Rightarrow> t | _ \<Rightarrow> k))"

text \<open>
  What the path of a key reaches in the dictionary stored for a locale; \<open>undefined\<close> when
  no dictionary is stored for it.
\<close>

definition resolveIn :: "state \<Rightarrow> string \<Rightarrow> string \<Rightarrow> jsval option" where
  "resolveIn s l k =
     (case dictionaries s l of None \<Rightarrow> None | Some d \<Rightarrow> walkKeys (Some d) (splitDot k))"

fun isString :: "jsval option \<Rightarrow> bool" where
  "isString (Some (JStr t)) = True"
| "isString v = False"

subsection \<open>pluralize\<close>

text \<open>A JavaScript number, for the comparisons \<open>count <= 1\<close> and \<open>count === 1\<close>.\<close>

datatype number = NaN | NegInfinity | Finite real | PosInfinity

fun leOne :: "number \<Rightarrow> bool" where
  "leOne (Finite r) = (r \<le> 1)"
| "leOne NegInfinity = True"
| "leOne c = False"

fun eqOne :: "number \<Rightarrow> bool" where
  "eqOne (Finite r) = (r = 1)"
| "eqOne c = False"

definition pluralize :: "state \<Rightarrow> number \<Rightarrow> string \<Rightarrow> string \<Rightarrow> string option \<Rightarrow> string" where
  "pluralize s count singular plural lang =
     (let target = targetLang s lang in
      if target = ''fr'' then (if leOne count then singular else plural)
      else if target = ''pt'' then (if leOne count then singular else plural)
      else (if eqOne count then singular else plural))"

subsection \<open>detectLanguage\<close>

text \<open>
  The body of the one \<open>try\<close> block reads three sources in turn. Reading a source returns
  from the method with a locale code, falls through to the next statement, or raises.
\<close>

datatype 'a control = Return 'a | Continue | Raise

text \<open>\<open>SUPPORTED_LANGUAGES.includes(x)\<close>.\<close>

definition supported :: "string \<Rightarrow> bool" where
  "supported l = (l \<in> set SUPPORTED_LANGUAGES)"

text \<open>1. \<open>new URLSearchParams(window.location.search).get('lang')\<close>.\<close>

definition fromUrl :: "state \<Rightarrow> string control" where
  "fromUrl s =
     (case urlLang s of
        Throws \<Rightarrow> Raise
      | Gives None \<Rightarrow> Continue
      | Gives (Some param) \<Rightarrow>
          if param \<noteq> [] \<and> supported param then Return param else Continue)"

text \<open>2. \<open>localStorage.getItem(STORAGE_KEY)\<close>, when \<open>localStorage\<close> is defined.\<close>

definition fromStorage :: "state \<Rightarrow> string control" where
  "fromStorage s =
     (case localStorage s of
        StorageUndefined \<Rightarrow> Continue
      | Storage r w it \<Rightarrow>
          if \<not> r then Raise
          else (case it of
                  None \<Rightarrow> Continue
                | Some stored \<Rightarrow>
                    if stored \<noteq> [] \<and> supported stored then Return stored else Continue))"

text \<open>3. \<open>navigator.language.split('-')[0]\<close>, when \<open>navigator.language\<close> is truthy.\<close>

definition fromNavigator :: "state \<Rightarrow> string control" where
  "fromNavigator s =
     (case navigatorLanguage s of
        Throws \<Rightarrow> Raise
      | Gives None \<Rightarrow> Continue
      | Gives (Some language) \<Rightarrow>
          if language = [] then Continue
          else (let browserLang = takeWhile (\<lambda>c. c \<noteq> CHR ''-'') language
                in if supported browserLang then Return browserLang else Continue))"

text \<open>Statements in sequence: the second runs when the first falls through.\<close>

definition andThen :: "'a control \<Rightarrow> 'a control \<Rightarrow> 'a control" where
  "andThen a b = (case a of Continue \<Rightarrow> b | r \<Rightarrow> r)"

definition detectTry :: "state \<Rightarrow> string control" where
  "detectTry s = andThen (fromUrl s) (andThen (fromStorage s) (fromNavigator s))"

text \<open>
  The \<open>catch\<close> clause only writes a warning; after it, as after a \<open>try\<close> block that fell
  through, the method returns the default locale.
\<close>

definition detectLanguage :: "state \<Rightarrow> string" where
  "detectLanguage s =
     (case detectTry s of
        Return l \<Rightarrow> l
      | Continue \<Rightarrow> DEFAULT_LANGUAGE
      | Raise \<Rightarrow> DEFAULT_LANGUAGE)"

text \<open>The constructor: the fields of the class, in a browser given by the argument.\<close>

definition construct :: "state \<Rightarrow> state" where
  "construct b =
     b\<lparr>currentLang := detectLanguage b, dictionaries := Map.empty, initialized := False,
       observers := [], isApplying := False, observer := None\<rparr>"

subsection \<open>loadTranslations\<close>

definition localeUrl :: "string \<Rightarrow> string" where
  "localeUrl lang = ''/i18n/locales/'' @ lang @ ''.json''"

text \<open>\<open>if (this.translations[lang])\<close>.\<close>

definition loaded :: "state \<Rightarrow> string \<Rightarrow> bool" where
  "loaded s lang = (case dictionaries s lang of Some d \<Rightarrow> truthy d | None \<Rightarrow> False)"

text \<open>
  The \<open>try\<close> block: the request is sent; a failed request, a response that is not \<open>ok\<close>
  and a body that is not JSON raise (\<open>None\<close>), and nothing is stored then.
\<close>

definition fetchTranslations :: "string \<Rightarrow> state \<Rightarrow> jsval option \<times> state" where
  "fetchTranslations lang s =
     (let s' = s\<lparr>fetched := fetched s @ [localeUrl lang]\<rparr> in
      case network s (localeUrl lang) of
        NetworkError \<Rightarrow> (None, s')
      | Response ok body \<Rightarrow>
          if \<not> ok then (None, s')
          else (case body of
                  None \<Rightarrow> (None, s')
                | Some d \<Rightarrow> (Some d, s'\<lparr>dictionaries := (dictionaries s')(lang \<mapsto> d)\<rparr>)))"

text \<open>
  The method with its \<open>catch\<close> clause, which handles every exception of the \<open>try\<close> block
  and raises none itself: the promise is resolved with the value returned. When a
  dictionary is loaded for the locale, \<open>orElse (dictionaries s lang) JNull\<close> is that dictionary.
\<close>

function loadTranslations :: "string \<Rightarrow> state \<Rightarrow> jsval \<times> state" where
  "loadTranslations lang s =
     (if loaded s lang then (orElse (dictionaries s lang) JNull, s)
      else (case fetchTranslations lang s of
              (Some d, s') \<Rightarrow> (d, s')
            | (None, s') \<Rightarrow>
                if lang \<noteq> DEFAULT_LANGUAGE \<and> \<not> loaded s' DEFAULT_LANGUAGE
                then loadTranslations DEFAULT_LANGUAGE s'
                else (orElse (dictionaries s' DEFAULT_LANGUAGE) (JObj []), s')))"
  by pat_completeness auto
termination
  by (relation "measure (\<lambda>(lang, s). if lang = DEFAULT_LANGUAGE then 0 else 1)") auto

declare loadTranslations.simps [simp del]

subsection \<open>updateElement\<close>

text \<open>
  A string is a list of code units, a \<open>char\<close> being the code unit of that number: the
  strings of the model are those whose code units lie below 256. \<open>t.trim()\<close> is the empty
  string when every unit of \<open>t\<close> is white space or a line terminator. Of the code units
  below 256 these are U+0009 to U+000D, U+0020 and the no-break space U+00A0; the others
  that \<open>trim\<close> strips (U+1680, U+2000 to U+200A, U+2028, U+2029, U+202F, U+205F, U+3000,
  U+FEFF) are no \<open>char\<close>.
\<close>

definition isWhiteSpace :: "char \<Rightarrow> bool" where
  "isWhiteSpace c = (of_char c \<in> {9, 10, 11, 12, 13, 32, 160 :: nat})"

definition blank :: "string \<Rightarrow> bool" where
  "blank t = list_all isWhiteSpace t"

definition toLower :: "char \<Rightarrow> char" where
  "toLower c =
     (if 65 \<le> (of_char c :: nat) \<and> (of_char c :: nat) \<le> 90
      then char_of (of_char c + 32 :: nat) else c)"

fun isElement :: "node \<Rightarrow> bool" where
  "isElement (Element tg as ch) = True"
| "isElement n = False"

text \<open>\<open>element.children\<close>: the child nodes that are elements.\<close>

definition children :: "node list \<Rightarrow> node list" where
  "children ch = filter isElement ch"

text \<open>\<open>textContent\<close> of an element: the text of its descendant text nodes, in order.\<close>

fun textContent :: "node \<Rightarrow> string" where
  "textContent (TextNode t) = t"
| "textContent (CommentNode t) = []"
| "textContent (Element tg as ch) = concat (map textContent ch)"

text \<open>Setting \<open>textContent\<close> replaces all child nodes by one text node, or by none.\<close>

definition setTextContent :: "string \<Rightarrow> node list" where
  "setTextContent t = (if t = [] then [] else [TextNode t])"

text \<open>\<open>setAttribute\<close> on an element of an HTML document: the name is lower-cased.\<close>

fun setAttr :: "string \<Rightarrow> string \<Rightarrow> (string \<times> string) list \<Rightarrow> (string \<times> string) list" where
  "setAttr n v [] = [(n, v)]"
| "setAttr n v ((k, x) # as) = (if k = n then (k, v) # as else (k, x) # setAttr n v as)"

definition setAttribute :: "string \<Rightarrow> string \<Rightarrow> (string \<times> string) list \<Rightarrow> (string \<times> string) list" where
  "setAttribute n v as = setAttr (map toLower n) v as"

text \<open>
  \<open>element.type\<close>: of a \<open>textarea\<close> the constant; of an \<open>input\<close> the keyword its \<open>type\<close>
  attribute names, whatever its case, and \<open>text\<close> when it names none.
\<close>

definition inputTypes :: "string list" where
  "inputTypes =
     [''hidden'', ''text'', ''search'', ''tel'', ''url'', ''email'', ''password'', ''date'',
      ''month'', ''week'', ''time'', ''datetime-local'', ''number'', ''range'', ''color'',
      ''checkbox'', ''radio'', ''file'', ''submit'', ''image'', ''reset'', ''button'']"

definition typeOf :: "string \<Rightarrow> (string \<times> string) list \<Rightarrow> string" where
  "typeOf tg as =
     (if tg = ''textarea'' then ''textarea''
      else (case map_of as ''type'' of
              None \<Rightarrow> ''text''
            | Some v \<Rightarrow> if map toLower v \<in> set inputTypes then map toLower v else ''text''))"

text \<open>
  \<open>child.nodeType === Node.TEXT_NODE && child.textContent.trim()\<close>: a text node that is
  not blank.
\<close>

fun textBearing :: "node \<Rightarrow> bool" where
  "textBearing (TextNode x) = (\<not> blank x)"
| "textBearing n = False"

text \<open>
  The loop over \<open>element.childNodes\<close>: the first such child gets the translation as its
  text, and the method returns; \<open>None\<close> when the loop ends without one.
\<close>

fun replaceFirstText :: "string \<Rightarrow> node list \<Rightarrow> node list option" where
  "replaceFirstText t [] = None"
| "replaceFirstText t (child # rest) =
     (if textBearing child then Some (TextNode t # rest)
      else map_option (\<lambda>r. child # r) (replaceFirstText t rest))"

text \<open>
  The method on a node of the document. For an \<open>input\<close> of type \<open>submit\<close> or \<open>button\<close> the
  property \<open>value\<close> reflects the attribute of that name, as \<open>placeholder\<close> does.
\<close>

fun updateElement :: "node \<Rightarrow> string \<Rightarrow> node" where
  "updateElement (Element tg as ch) translation =
     (if tg = ''input'' \<or> tg = ''textarea'' then
        (if typeOf tg as = ''submit'' \<or> typeOf tg as = ''button''
         then Element tg (setAttr ''value'' translation as) ch
         else Element tg (setAttr ''placeholder'' translation as) ch)
      else if tg = ''option'' then Element tg as (setTextContent translation)
      else if children ch \<noteq> [] then
        (case replaceFirstText translation ch of
           Some ch' \<Rightarrow> Element tg as ch'
         | None \<Rightarrow> Element tg as (TextNode translation # ch))
      else if textContent (Element tg as ch) \<noteq> translation
        then Element tg as (setTextContent translation)
        else Element tg as ch)"
| "updateElement n translation = n"

subsection \<open>applyTranslations\<close>

text \<open>\<open>translation && translation !== key\<close> for \<open>translation = this.getTranslation(key)\<close>.\<close>

definition translated :: "state \<Rightarrow> string \<Rightarrow> string option" where
  "translated s key =
     (let translation = getTranslation s (Some key) None
      in if translation \<noteq> [] \<and> translation \<noteq> key then Some translation else None)"

text \<open>
  The elements with \<open>data-i18n\<close>. \<open>forEach\<close> visits them in document order, a parent before
  its descendants; here the descendants are visited first. Both give the same document,
  since \<open>updateElement\<close> leaves the child elements as they are or detaches them all
  (lemma \<open>updateElement_map_children\<close>).
\<close>

fun applyText :: "state \<Rightarrow> node \<Rightarrow> node" where
  "applyText s (Element tg as ch) =
     (let element = Element tg as (map (applyText s) ch) in
      case map_of as ''data-i18n'' of
        None \<Rightarrow> element
      | Some key \<Rightarrow>
          if key = [] then element
          else (case translated s key of
                  Some translation \<Rightarrow> updateElement element translation
                | None \<Rightarrow> element))"
| "applyText s n = n"

text \<open>
  The elements with \<open>data-i18n-html\<close>: setting \<open>innerHTML\<close> replaces the child nodes by
  what the host parses; the nodes replaced leave the document, the new ones are not in
  the list \<open>forEach\<close> runs over.
\<close>

fun applyHtml :: "state \<Rightarrow> node \<Rightarrow> node" where
  "applyHtml s (Element tg as ch) =
     (case map_of as ''data-i18n-html'' of
        None \<Rightarrow> Element tg as (map (applyHtml s) ch)
      | Some key \<Rightarrow>
          if key = [] then Element tg as (map (applyHtml s) ch)
          else (case translated s key of
                  Some translation \<Rightarrow> Element tg as (parseHTML s translation)
                | None \<Rightarrow> Element tg as (map (applyHtml s) ch)))"
| "applyHtml s n = n"

text \<open>
  \<open>Object.keys(attrs)\<close> raises on \<open>null\<close>; \<open>attrs[attr]\<close> reads a member of an object, an
  array or a string.
\<close>

fun ownKeys :: "jsval \<Rightarrow> string list option" where
  "ownKeys JNull = None"
| "ownKeys (JObj kvs) = Some (map fst kvs)"
| "ownKeys (JArr xs) = Some (map showNat [0 ..< length xs])"
| "ownKeys (JStr t) = Some (map showNat [0 ..< length t])"
| "ownKeys v = Some []"

fun readMember :: "jsval \<Rightarrow> string \<Rightarrow> jsval option" where
  "readMember (JStr t) k =
     (case find (\<lambda>i. showNat i = k) [0 ..< length t] of
        Some i \<Rightarrow> Some (JStr [t ! i])
      | None \<Rightarrow> if k = ''length'' then Some (JNum (int (length t))) else None)"
| "readMember v k = getProp v k"

text \<open>
  The loop over the names of an attribute map, inside the \<open>try\<close> block of one element. A key
  that is falsy gives the empty translation; a truthy key that is not a string makes
  \<open>key.split\<close> raise, and a name the host refuses makes \<open>setAttribute\<close> raise: the loop
  ends there, and what it set before stays.
\<close>

fun setTranslated ::
  "state \<Rightarrow> jsval \<Rightarrow> string list \<Rightarrow> (string \<times> string) list \<Rightarrow> (string \<times> string) list" where
  "setTranslated s obj [] as = as"
| "setTranslated s obj (attr # rest) as =
     (case readMember obj attr of
        None \<Rightarrow> setTranslated s obj rest as
      | Some (JStr key) \<Rightarrow>
          (case translated s key of
             None \<Rightarrow> setTranslated s obj rest as
           | Some translation \<Rightarrow>
               if validAttributeName s attr
               then setTranslated s obj rest (setAttribute attr translation as)
               else as)
      | Some key \<Rightarrow> if truthy key then as else setTranslated s obj rest as)"

fun applyAttr :: "state \<Rightarrow> node \<Rightarrow> node" where
  "applyAttr s (Element tg as ch) =
     Element tg
       (case map_of as ''data-i18n-attr'' of
          None \<Rightarrow> as
        | Some attrData \<Rightarrow>
            if attrData = [] then as
            else (case parseJSON s attrData of
                    None \<Rightarrow> as
                  | Some obj \<Rightarrow>
                      (case ownKeys obj of
                         None \<Rightarrow> as
                       | Some names \<Rightarrow> setTranslated s obj names as)))
       (map (applyAttr s) ch)"
| "applyAttr s n = n"

text \<open>\<open>querySelector\<close>: the first element in document order that matches.\<close>

fun findFirst :: "(node \<Rightarrow> bool) \<Rightarrow> node \<Rightarrow> node option"
  and findFirstIn :: "(node \<Rightarrow> bool) \<Rightarrow> node list \<Rightarrow> node option" where
  "findFirst p (Element tg as ch) =
     (if p (Element tg as ch) then Some (Element tg as ch) else findFirstIn p ch)"
| "findFirst p (TextNode t) = None"
| "findFirst p (CommentNode t) = None"
| "findFirstIn p [] = None"
| "findFirstIn p (n # ns) =
     (case findFirst p n of Some e \<Rightarrow> Some e | None \<Rightarrow> findFirstIn p ns)"

text \<open>A change made to that first element, in place; \<open>None\<close> when no element matches.\<close>

fun updateFirst :: "(node \<Rightarrow> bool) \<Rightarrow> (node \<Rightarrow> node) \<Rightarrow> node \<Rightarrow> node option"
  and updateFirstIn :: "(node \<Rightarrow> bool) \<Rightarrow> (node \<Rightarrow> node) \<Rightarrow> node list \<Rightarrow> node list option" where
  "updateFirst p f (Element tg as ch) =
     (if p (Element tg as ch) then Some (f (Element tg as ch))
      else map_option (Element tg as) (updateFirstIn p f ch))"
| "updateFirst p f (TextNode t) = None"
| "updateFirst p f (CommentNode t) = None"
| "updateFirstIn p f [] = None"
| "updateFirstIn p f (n # ns) =
     (case updateFirst p f n of
        Some n' \<Rightarrow> Some (n' # ns)
      | None \<Rightarrow> map_option (\<lambda>r. n # r) (updateFirstIn p f ns))"

text \<open>The selector \<open>meta[name="..."]\<close>.\<close>

fun isMeta :: "string \<Rightarrow> node \<Rightarrow> bool" where
  "isMeta name (Element tg as ch) = (tg = ''meta'' \<and> map_of as ''name'' = Some name)"
| "isMeta name n = False"

fun setContent :: "string \<Rightarrow> node \<Rightarrow> node" where
  "setContent v (Element tg as ch) = Element tg (setAttribute ''content'' v as) ch"
| "setContent v n = n"

text \<open>The \<open>content\<close> of the first \<open>meta\<close> element of a name, when it is truthy.\<close>

definition metaKey :: "string \<Rightarrow> node \<Rightarrow> string option" where
  "metaKey name rootEl =
     (case findFirst (isMeta name) rootEl of
        None \<Rightarrow> None
      | Some m \<Rightarrow>
          (case map_of (attrs m) ''content'' of
             None \<Rightarrow> None
           | Some key \<Rightarrow> if key = [] then None else Some key))"

definition applyTitle :: "state \<Rightarrow> state" where
  "applyTitle s =
     (case documentElement s of
        None \<Rightarrow> s
      | Some rootEl \<Rightarrow>
          (case metaKey ''i18n-title'' rootEl of
             None \<Rightarrow> s
           | Some titleKey \<Rightarrow>
               (case translated s titleKey of
                  None \<Rightarrow> s
                | Some translation \<Rightarrow> s\<lparr>title := translation\<rparr>)))"

definition applyDescription :: "state \<Rightarrow> state" where
  "applyDescription s =
     (case documentElement s of
        None \<Rightarrow> s
      | Some rootEl \<Rightarrow>
          (case metaKey ''i18n-description'' rootEl of
             None \<Rightarrow> s
           | Some descKey \<Rightarrow>
               (case translated s descKey of
                  None \<Rightarrow> s
                | Some translation \<Rightarrow>
                    (case updateFirst (isMeta ''description'') (setContent translation) rootEl of
                       None \<Rightarrow> s
                     | Some rootEl' \<Rightarrow> s\<lparr>documentElement := Some rootEl'\<rparr>))))"

text \<open>\<open>document.body\<close>: the \<open>body\<close> or \<open>frameset\<close> child of the \<open>html\<close> element at the top.\<close>

fun isBody :: "node \<Rightarrow> bool" where
  "isBody (Element tg as ch) = (tg = ''body'' \<or> tg = ''frameset'')"
| "isBody n = False"

definition hasBody :: "state \<Rightarrow> bool" where
  "hasBody s =
     (case documentElement s of
        Some (Element tg as ch) \<Rightarrow> tg = ''html'' \<and> list_ex isBody ch
      | _ \<Rightarrow> False)"

text \<open>
  The pass. The flag is set, the observer disconnected, the four kinds of marker are
  served in turn, the observer is connected again, and the flag is cleared.
\<close>

definition applyTranslations :: "state \<Rightarrow> state" where
  "applyTranslations s =
     (if isApplying s then s
      else
        let s1 = s\<lparr>isApplying := True\<rparr>;
            s2 = s1\<lparr>observer := map_option (\<lambda>c. False) (observer s1)\<rparr>;
            s3 = s2\<lparr>documentElement := map_option (applyText s2) (documentElement s2)\<rparr>;
            s4 = s3\<lparr>documentElement := map_option (applyHtml s3) (documentElement s3)\<rparr>;
            s5 = s4\<lparr>documentElement := map_option (applyAttr s4) (documentElement s4)\<rparr>;
            s6 = applyTitle s5;
            s7 = applyDescription s6;
            s8 = (if observer s7 \<noteq> None \<and> hasBody s7 then s7\<lparr>observer := Some True\<rparr> else s7)
        in s8\<lparr>isApplying := False\<rparr>)"

subsection \<open>Subscribers\<close>

text \<open>\<open>onLanguageChange\<close>: an argument that is not a function (\<open>None\<close>) is ignored.\<close>

definition onLanguageChange :: "callback option \<Rightarrow> state \<Rightarrow> state" where
  "onLanguageChange callback s =
     (case callback of
        Some f \<Rightarrow> s\<lparr>observers := observers s @ [f]\<rparr>
      | None \<Rightarrow> s)"

text \<open>The call \<open>callback(lang)\<close>: it is made, and it returns or raises.\<close>

definition invoke :: "callback \<Rightarrow> string \<Rightarrow> state \<Rightarrow> unit control \<times> state" where
  "invoke f lang s =
     (if cbRaises f lang then Raise else Continue, s\<lparr>calls := calls s @ [(cbId f, lang)]\<rparr>)"

text \<open>\<open>forEach\<close> over the subscribers, each call in a \<open>try\<close> block of its own.\<close>

fun notifyEach :: "string \<Rightarrow> callback list \<Rightarrow> state \<Rightarrow> state" where
  "notifyEach lang [] s = s"
| "notifyEach lang (f # fs) s =
     (case invoke f lang s of
        (Raise, s') \<Rightarrow> notifyEach lang fs s'
      | (r, s') \<Rightarrow> notifyEach lang fs s')"

definition notifyObservers :: "string \<Rightarrow> state \<Rightarrow> state" where
  "notifyObservers lang s = notifyEach lang (observers s) s"

subsection \<open>changeLanguage and init\<close>

text \<open>\<open>localStorage.setItem(STORAGE_KEY, lang)\<close> in its \<open>try\<close> block.\<close>

fun setItem :: "string \<Rightarrow> storage \<Rightarrow> storage" where
  "setItem v StorageUndefined = StorageUndefined"
| "setItem v (Storage r w it) = (if w then Storage r w (Some v) else Storage r w it)"

text \<open>\<open>document.documentElement.lang = lang\<close>.\<close>

fun setLang :: "string \<Rightarrow> node \<Rightarrow> node" where
  "setLang v (Element tg as ch) = Element tg (setAttr ''lang'' v as) ch"
| "setLang v n = n"

text \<open>
  The method, run to its end: the request of \<open>loadTranslations\<close> is answered by the
  network of the state before anything else happens.
\<close>

definition changeLanguage :: "string \<Rightarrow> state \<Rightarrow> state" where
  "changeLanguage lang s =
     (if \<not> supported lang then s
      else
        let s1 = s\<lparr>currentLang := lang\<rparr>;
            s2 = s1\<lparr>localStorage := setItem lang (localStorage s1)\<rparr>;
            s3 = s2\<lparr>documentElement := map_option (setLang lang) (documentElement s2)\<rparr>;
            s4 = snd (loadTranslations lang s3);
            s5 = applyTranslations s4;
            s6 = s5\<lparr>events := events s5 @ [lang]\<rparr>
        in notifyObservers lang s6)"

text \<open>
  \<open>applyWhenReady\<close> of \<open>init\<close>, and \<open>observeDOM\<close>, which it schedules: they run now or
  later, when the document is parsed and when the timer fires.
\<close>

definition applyWhenReady :: "state \<Rightarrow> state" where
  "applyWhenReady s = (applyTranslations s)\<lparr>initialized := True\<rparr>"

definition observeDOM :: "state \<Rightarrow> state" where
  "observeDOM s =
     (if \<not> hasBody s \<or> observer s \<noteq> None then s else s\<lparr>observer := Some True\<rparr>)"

definition init :: "state \<Rightarrow> state" where
  "init s =
     (if initialized s then s
      else
        let s1 = s\<lparr>currentLang := detectLanguage s\<rparr>;
            s2 = s1\<lparr>documentElement :=
                      map_option (setLang (currentLang s1)) (documentElement s1)\<rparr>;
            s3 = snd (loadTranslations (currentLang s2) s2)
        in if documentLoading s3 then s3 else applyWhenReady s3)"

text \<open>
  The states an engine can be in: it is constructed in some browser, its methods are
  called, and the page and the user change the browser.
\<close>

inductive reachable :: "state \<Rightarrow> bool" where
  constructed: "reachable (construct b)"
| initialised: "reachable s \<Longrightarrow> reachable (init s)"
| ready: "reachable s \<Longrightarrow> reachable (applyWhenReady s)"
| observing: "reachable s \<Longrightarrow> reachable (observeDOM s)"
| changed: "reachable s \<Longrightarrow> reachable (changeLanguage lang s)"
| loading: "reachable s \<Longrightarrow> reachable (snd (loadTranslations lang s))"
| applied: "reachable s \<Longrightarrow> reachable (applyTranslations s)"
| subscribed: "reachable s \<Longrightarrow> reachable (onLanguageChange callback s)"
| browser: "reachable s \<Longrightarrow>
    reachable (s\<lparr>urlLang := u, localStorage := st, navigatorLanguage := n,
                 documentElement := d, title := t, documentLoading := l\<rparr>)"

subsection \<open>Notions used in the statements\<close>

text \<open>
  The request for the dictionary of a locale fails: no response, a response that is not
  \<open>ok\<close>, or a body that is not JSON.
\<close>

definition fetchFails :: "state \<Rightarrow> string \<Rightarrow> bool" where
  "fetchFails s lang =
     (case network s (localeUrl lang) of
        NetworkError \<Rightarrow> True
      | Response ok body \<Rightarrow> \<not> ok \<or> body = None)"

subsection \<open>Concrete browsers, dictionaries and documents\<close>

definition frDict :: jsval where
  "frDict = JObj [(''nav'', JObj [(''home'', JStr ''Accueil'')]), (''sep'', JStr '' '')]"

definition esDict :: jsval where
  "esDict =
     JObj [(''nav'', JObj [(''home'', JStr ''Inicio''), (''about'', JStr ''Nosotros'')]),
           (''sep'', JStr '' '')]"

text \<open>A link that holds an icon and no text, marked with the key \<open>sep\<close>.\<close>

definition iconLink :: node where
  "iconLink = Element ''a'' [(''data-i18n'', ''sep'')] [Element ''i'' [] []]"

definition page :: node where
  "page = Element ''html'' [] [Element ''body'' [] [iconLink]]"

text \<open>
  A browser with no locale in the URL, no storage and no language; only the Spanish
  dictionary can be fetched.
\<close>

definition browser0 :: state where
  "browser0 =
     \<lparr>currentLang = [], dictionaries = Map.empty, initialized = False, observers = [],
      isApplying = False, observer = None,
      urlLang = Gives None, localStorage = StorageUndefined, navigatorLanguage = Gives None,
      documentElement = Some page, title = [], documentLoading = False,
      network = (\<lambda>u. if u = ''/i18n/locales/es.json'' then Response True (Some esDict)
                       else NetworkError),
      parseHTML = (\<lambda>h. [TextNode h]), parseJSON = (\<lambda>j. None),
      validAttributeName = (\<lambda>n. True),
      fetched = [], calls = [], events = []\<rparr>"

text \<open>An engine with both dictionaries loaded and French active.\<close>

definition engineFr :: state where
  "engineFr = browser0\<lparr>currentLang := ''fr'',
                       dictionaries := [''fr'' \<mapsto> frDict, ''es'' \<mapsto> esDict]\<rparr>"


text \<open>An engine with only the Spanish dictionary loaded and Spanish active.\<close>

definition engineEs :: state where
  "engineEs = browser0\<lparr>currentLang := ''es'', dictionaries := [''es'' \<mapsto> esDict]\<rparr>"

text \<open>A browser whose every request is answered with an error status.\<close>

definition offline :: state where
  "offline = browser0\<lparr>network := (\<lambda>u. Response False None)\<rparr>"

text \<open>
  Browsers for the detection of the locale: one whose storage refuses to be read while the
  browser speaks French, one given by its three sources, and one whose three sources all
  hold codes that are not supported.
\<close>

definition blockedStorage :: state where
  "blockedStorage =
     browser0\<lparr>localStorage := Storage False False (Some ''pt''),
              navigatorLanguage := Gives (Some ''fr-FR'')\<rparr>"

definition visitor :: "string option \<Rightarrow> string option \<Rightarrow> string option \<Rightarrow> state" where
  "visitor u st n =
     browser0\<lparr>urlLang := Gives u, localStorage := Storage True True st,
              navigatorLanguage := Gives n\<rparr>"

definition intruder :: state where
  "intruder =
     browser0\<lparr>urlLang := Gives (Some ''xx''), localStorage := Storage True True (Some ''zz''),
              navigatorLanguage := Gives (Some ''de-DE'')\<rparr>"

text \<open>A subscriber with its identity, which raises or not.\<close>

definition listener :: "nat \<Rightarrow> bool \<Rightarrow> callback" where
  "listener i r = \<lparr>cbId = i, cbRaises = (\<lambda>l. r)\<rparr>"




section \<open>Properties\<close>

subsection \<open>Resolving a key\<close>


lemma walkKeys_undefined: "walkKeys None ks = None"
  by (cases ks) auto


text \<open>
  What is reached through an inherited member is never a string: a walk from a function,
  a prototype, \<open>null\<close> or a number ends in one of these or in \<open>undefined\<close>.
\<close>

lemma walkKeys_host_not_string:
  "v = JFunction \<or> v = JObjectPrototype \<or> v = JArrayPrototype \<or> v = JNull \<or> (\<exists>n. v = JNum n)
     \<Longrightarrow> \<not> isString (walkKeys (Some v) ks)"
proof (induction ks arbitrary: v)
  case Nil
  then show ?case by auto
next
  case (Cons k ks)
  have step: "\<not> isString (walkKeys r ks)"
    if "r = None \<or> r = Some JNull \<or> r = Some (JNum 0) \<or> r = Some JFunction \<or>
        r = Some JObjectPrototype" for r
  proof -
    from that consider "r = None" | "r = Some JNull" | "r = Some (JNum 0)" |
      "r = Some JFunction" | "r = Some JObjectPrototype" by blast
    then show ?thesis
    proof cases
      case 1
      then show ?thesis by (simp add: walkKeys_undefined)
    next
      case 2
      then show ?thesis using Cons.IH [of JNull] by simp
    next
      case 3
      then show ?thesis using Cons.IH [of "JNum 0"] by simp
    next
      case 4
      then show ?thesis using Cons.IH [of JFunction] by simp
    next
      case 5
      then show ?thesis using Cons.IH [of JObjectPrototype] by simp
    qed
  qed
  from Cons.prems consider "v = JFunction" | "v = JObjectPrototype" | "v = JArrayPrototype" |
    "v = JNull" | n where "v = JNum n" by blast
  then show ?case
  proof cases
    case 1
    then show ?thesis by simp
  next
    case 2
    have "walkKeys (Some v) (k # ks) = walkKeys (fromObjectPrototype k) ks"
      using 2 by simp
    moreover have "\<not> isString (walkKeys (fromObjectPrototype k) ks)"
      by (rule step) (simp add: fromObjectPrototype_def)
    ultimately show ?thesis by simp
  next
    case 3
    have "walkKeys (Some v) (k # ks) = walkKeys (fromArrayPrototype k) ks"
      using 3 by simp
    moreover have "\<not> isString (walkKeys (fromArrayPrototype k) ks)"
      by (rule step) (simp add: fromArrayPrototype_def inheritedByObject_def)
    ultimately show ?thesis by simp
  next
    case 4
    then show ?thesis by simp
  next
    case 5
    then show ?thesis by simp
  qed
qed

lemma inheritedByObject_cases:
  "inheritedByObject k = None \<or> inheritedByObject k = Some JObjectPrototype \<or>
   inheritedByObject k = Some JFunction"
  by (simp add: inheritedByObject_def)

lemma walkKeys_empty_object: "\<not> isString (walkKeys (Some (JObj [])) ks)"
proof (cases ks)
  case Nil
  then show ?thesis by simp
next
  case (Cons k ks')
  have w: "walkKeys (Some (JObj [])) ks = walkKeys (inheritedByObject k) ks'"
    using Cons by simp
  from inheritedByObject_cases [of k] consider "inheritedByObject k = None" |
    "inheritedByObject k = Some JObjectPrototype" | "inheritedByObject k = Some JFunction"
    by auto
  then show ?thesis
  proof cases
    case 1
    with w show ?thesis by (simp add: walkKeys_undefined)
  next
    case 2
    with w walkKeys_host_not_string [of JObjectPrototype ks'] show ?thesis by simp
  next
    case 3
    with w walkKeys_host_not_string [of JFunction ks'] show ?thesis by simp
  qed
qed

text \<open>When a member read on an object is \<open>undefined\<close>: it is neither owned nor inherited.\<close>

lemma getProp_object_undefined:
  "getProp (JObj kvs) k = None \<longleftrightarrow>
     map_of kvs k = None \<and> k \<noteq> ''__proto__'' \<and> k \<notin> set objectPrototypeMembers"
  by (auto simp: inheritedByObject_def split: option.splits)



lemma not_string_result:
  "\<not> isString v \<Longrightarrow> (case v of Some (JStr t) \<Rightarrow> t | _ \<Rightarrow> k) = k"
  by (cases v rule: isString.cases) auto

lemma walk_orElse_not_string:
  assumes "\<not> isString (resolveIn s l key)"
  shows "\<not> isString (walkKeys (Some (orElse (dictionaries s l) (JObj []))) (splitDot key))"
  using assms walkKeys_empty_object [of "splitDot key"]
  by (auto simp: resolveIn_def orElse_def split: option.splits)

lemma walk_orElse2_not_string:
  assumes "\<not> isString (resolveIn s l key)" and "\<not> isString (resolveIn s l' key)"
  shows "\<not> isString (walkKeys (Some (orElse (dictionaries s l)
            (orElse (dictionaries s l') (JObj [])))) (splitDot key))"
  using assms walkKeys_empty_object [of "splitDot key"]
  by (auto simp: resolveIn_def orElse_def split: option.splits)




text \<open>
  C2. \<open>getTranslation\<close> returns a string for every input: the empty string for a key that
  is \<open>null\<close> or empty; and the key itself, unchanged, whenever its path reaches a string
  neither in the dictionary of the requested locale nor in the default dictionary, in
  particular when no dictionary is loaded at all.
\<close>

theorem getTranslation_total:
  "getTranslation s None lang = [] \<and>
   getTranslation s (Some []) lang = [] \<and>
   (key \<noteq> [] \<and> \<not> isString (resolveIn s (targetLang s lang) key)
      \<and> \<not> isString (resolveIn s DEFAULT_LANGUAGE key)
      \<longrightarrow> getTranslation s (Some key) lang = key) \<and>
   (key \<noteq> [] \<and> dictionaries s = Map.empty \<longrightarrow> getTranslation s (Some key) lang = key)"
proof (intro conjI impI)
  show "getTranslation s None lang = []" by (simp add: getTranslation_def)
  show "getTranslation s (Some []) lang = []" by (simp add: getTranslation_def)
next
  assume a: "key \<noteq> [] \<and> \<not> isString (resolveIn s (targetLang s lang) key)
      \<and> \<not> isString (resolveIn s DEFAULT_LANGUAGE key)"
  note w1 = walk_orElse2_not_string [of s "targetLang s lang" key DEFAULT_LANGUAGE]
  note w2 = walk_orElse_not_string [of s DEFAULT_LANGUAGE key]
  from a w1 w2 show "getTranslation s (Some key) lang = key"
    by (simp add: getTranslation_def Let_def not_string_result)
next
  assume a: "key \<noteq> [] \<and> dictionaries s = Map.empty"
  then have "\<not> isString (resolveIn s l key)" for l by (simp add: resolveIn_def)
  with a walk_orElse2_not_string [of s "targetLang s lang" key DEFAULT_LANGUAGE]
    walk_orElse_not_string [of s DEFAULT_LANGUAGE key]
  show "getTranslation s (Some key) lang = key"
    by (simp add: getTranslation_def Let_def not_string_result)
qed

theorem getTranslation_total_witness:
  "getTranslation engineFr (Some ''nav.contact'') (Some ''fr'') = ''nav.contact'' \<and>
   getTranslation engineFr (Some ''nav'') None = ''nav'' \<and>
   getTranslation browser0 (Some ''nav.home'') (Some ''pt'') = ''nav.home''"
proof -
  have a: "\<not> isString (resolveIn engineFr (targetLang engineFr (Some ''fr'')) ''nav.contact'')"
    and b: "\<not> isString (resolveIn engineFr DEFAULT_LANGUAGE ''nav.contact'')"
    and c: "\<not> isString (resolveIn engineFr (targetLang engineFr None) ''nav'')"
    and d: "\<not> isString (resolveIn engineFr DEFAULT_LANGUAGE ''nav'')"
    by code_simp+
  have e: "dictionaries browser0 = Map.empty" by (simp add: browser0_def)
  from getTranslation_total [of engineFr "Some ''fr''" "''nav.contact''"] a b
  have 1: "getTranslation engineFr (Some ''nav.contact'') (Some ''fr'') = ''nav.contact''"
    by simp
  from getTranslation_total [of engineFr None "''nav''"] c d
  have 2: "getTranslation engineFr (Some ''nav'') None = ''nav''" by simp
  from getTranslation_total [of browser0 "Some ''pt''" "''nav.home''"] e
  have 3: "getTranslation browser0 (Some ''nav.home'') (Some ''pt'') = ''nav.home''" by simp
  from 1 2 3 show ?thesis by simp
qed

subsection \<open>Loading a dictionary\<close>

lemma loaded_dict: "loaded s lang \<Longrightarrow> \<exists>d. dictionaries s lang = Some d \<and> truthy d"
  by (auto simp: loaded_def split: option.splits)

lemma loadTranslations_memo:
  "dictionaries s lang = Some d \<Longrightarrow> truthy d \<Longrightarrow> loadTranslations lang s = (d, s)"
  by (subst loadTranslations.simps) (simp add: loaded_def orElse_def)

lemma fetchTranslations_fails:
  "fetchFails s lang \<Longrightarrow>
     fetchTranslations lang s = (None, s\<lparr>fetched := fetched s @ [localeUrl lang]\<rparr>)"
  by (auto simp: fetchFails_def fetchTranslations_def Let_def split: response.splits)

lemma fetchTranslations_succeeds:
  "network s (localeUrl lang) = Response True (Some d) \<Longrightarrow>
     fetchTranslations lang s =
       (Some d, s\<lparr>fetched := fetched s @ [localeUrl lang],
                  dictionaries := (dictionaries s)(lang \<mapsto> d)\<rparr>)"
  by (simp add: fetchTranslations_def Let_def)

lemma loadTranslations_success:
  "\<not> loaded s lang \<Longrightarrow> network s (localeUrl lang) = Response True (Some d) \<Longrightarrow>
     loadTranslations lang s =
       (d, s\<lparr>fetched := fetched s @ [localeUrl lang],
              dictionaries := (dictionaries s)(lang \<mapsto> d)\<rparr>)"
  by (subst loadTranslations.simps) (simp add: fetchTranslations_succeeds)

lemma loadTranslations_default_fails:
  "\<not> loaded s DEFAULT_LANGUAGE \<Longrightarrow> fetchFails s DEFAULT_LANGUAGE \<Longrightarrow>
     loadTranslations DEFAULT_LANGUAGE s =
       (JObj [], s\<lparr>fetched := fetched s @ [localeUrl DEFAULT_LANGUAGE]\<rparr>)"
  by (subst loadTranslations.simps)
     (auto simp: fetchTranslations_fails loaded_def orElse_def split: option.splits)

lemma loadTranslations_fails_default_loaded:
  "\<not> loaded s lang \<Longrightarrow> fetchFails s lang \<Longrightarrow> dictionaries s DEFAULT_LANGUAGE = Some d0 \<Longrightarrow>
   truthy d0 \<Longrightarrow>
     loadTranslations lang s = (d0, s\<lparr>fetched := fetched s @ [localeUrl lang]\<rparr>)"
  by (subst loadTranslations.simps)
     (auto simp: fetchTranslations_fails loaded_def orElse_def split: option.splits)

lemma loadTranslations_fails_recurse:
  "\<not> loaded s lang \<Longrightarrow> fetchFails s lang \<Longrightarrow> lang \<noteq> DEFAULT_LANGUAGE \<Longrightarrow>
   \<not> loaded s DEFAULT_LANGUAGE \<Longrightarrow>
     loadTranslations lang s =
       loadTranslations DEFAULT_LANGUAGE (s\<lparr>fetched := fetched s @ [localeUrl lang]\<rparr>)"
  by (subst loadTranslations.simps)
     (auto simp: fetchTranslations_fails loaded_def orElse_def split: option.splits)

text \<open>Lookups under a locale with no usable dictionary are lookups under the default.\<close>

lemma getTranslation_unloaded:
  assumes "\<not> loaded s lang" and "lang \<noteq> []"
  shows "getTranslation s key (Some lang) = getTranslation s key (Some DEFAULT_LANGUAGE)"
proof -
  have d: "DEFAULT_LANGUAGE \<noteq> []" by (simp add: DEFAULT_LANGUAGE_def)
  have 1: "orElse (dictionaries s lang) b = b" for b
    using assms(1) by (auto simp: loaded_def orElse_def split: option.splits)
  have 2: "orElse (dictionaries s DEFAULT_LANGUAGE) (orElse (dictionaries s DEFAULT_LANGUAGE) b)
            = orElse (dictionaries s DEFAULT_LANGUAGE) b" for b
    by (auto simp: orElse_def split: option.splits)
  show ?thesis
    using assms(2) d by (cases key) (auto simp: getTranslation_def targetLang_def Let_def 1 2)
qed

lemma loaded_fetched [simp]: "loaded (s\<lparr>fetched := f\<rparr>) l = loaded s l"
  by (simp add: loaded_def)

lemma fetchFails_fetched [simp]: "fetchFails (s\<lparr>fetched := f\<rparr>) l = fetchFails s l"
  by (simp add: fetchFails_def)

lemma loadTranslations_default_other:
  "k \<noteq> DEFAULT_LANGUAGE \<Longrightarrow>
     dictionaries (snd (loadTranslations DEFAULT_LANGUAGE s)) k = dictionaries s k"
  by (subst loadTranslations.simps)
     (auto simp: fetchTranslations_def Let_def split: response.splits option.splits)

lemma loadTranslations_fails_keeps:
  assumes "\<not> loaded s lang" and "fetchFails s lang" and "lang \<noteq> DEFAULT_LANGUAGE"
  shows "dictionaries (snd (loadTranslations lang s)) lang = dictionaries s lang"
proof (cases "loaded s DEFAULT_LANGUAGE")
  case True
  then obtain d0 where "dictionaries s DEFAULT_LANGUAGE = Some d0" "truthy d0"
    using loaded_dict by blast
  then show ?thesis using assms by (simp add: loadTranslations_fails_default_loaded)
next
  case False
  then show ?thesis using assms
    by (simp add: loadTranslations_fails_recurse loadTranslations_default_other)
qed

lemma loadTranslations_fails_unloaded:
  assumes "\<not> loaded s lang" and "fetchFails s lang" and "lang \<noteq> DEFAULT_LANGUAGE"
  shows "\<not> loaded (snd (loadTranslations lang s)) lang"
  using assms loadTranslations_fails_keeps [OF assms] by (simp add: loaded_def)

text \<open>
  C3. \<open>loadTranslations\<close> always resolves with a value (the method is a total function, its
  \<open>catch\<close> clause handling every failure of the request), and: a locale whose dictionary
  is stored is answered from the store, with no request and no change of state, so a
  second call after a successful load sends no second request; when the request for a
  locale other than the default fails, the result is the default dictionary, taken from
  the store or fetched and then stored under the default locale, nothing is stored under
  the failed locale, and every later lookup under the failed locale gives what the lookup
  under the default locale gives; and when the default dictionary cannot be loaded either,
  the result is the empty dictionary.
\<close>

theorem loadTranslations_memo_and_fallback:
  "(\<exists>r s'. loadTranslations lang s = (r, s')) \<and>
   (dictionaries s lang = Some d \<and> truthy d \<longrightarrow> loadTranslations lang s = (d, s)) \<and>
   (\<not> loaded s lang \<and> network s (localeUrl lang) = Response True (Some d) \<and> truthy d \<longrightarrow>
      fst (loadTranslations lang s) = d \<and>
      fetched (snd (loadTranslations lang s)) = fetched s @ [localeUrl lang] \<and>
      loadTranslations lang (snd (loadTranslations lang s)) =
        (d, snd (loadTranslations lang s))) \<and>
   (\<not> loaded s lang \<and> fetchFails s lang \<and> lang \<noteq> DEFAULT_LANGUAGE \<and>
    dictionaries s DEFAULT_LANGUAGE = Some d0 \<and> truthy d0 \<longrightarrow>
      fst (loadTranslations lang s) = d0) \<and>
   (\<not> loaded s lang \<and> fetchFails s lang \<and> lang \<noteq> DEFAULT_LANGUAGE \<and>
    \<not> loaded s DEFAULT_LANGUAGE \<and>
    network s (localeUrl DEFAULT_LANGUAGE) = Response True (Some d0) \<longrightarrow>
      fst (loadTranslations lang s) = d0 \<and>
      dictionaries (snd (loadTranslations lang s)) DEFAULT_LANGUAGE = Some d0) \<and>
   (\<not> loaded s lang \<and> fetchFails s lang \<and> lang \<noteq> DEFAULT_LANGUAGE \<and> lang \<noteq> [] \<longrightarrow>
      dictionaries (snd (loadTranslations lang s)) lang = dictionaries s lang \<and>
      getTranslation (snd (loadTranslations lang s)) key (Some lang) =
        getTranslation (snd (loadTranslations lang s)) key (Some DEFAULT_LANGUAGE)) \<and>
   (\<not> loaded s lang \<and> fetchFails s lang \<and>
    \<not> loaded s DEFAULT_LANGUAGE \<and> fetchFails s DEFAULT_LANGUAGE \<longrightarrow>
      fst (loadTranslations lang s) = JObj [])"
proof (intro conjI impI)
  show "\<exists>r s'. loadTranslations lang s = (r, s')" by (cases "loadTranslations lang s") simp
next
  assume "dictionaries s lang = Some d \<and> truthy d"
  then show "loadTranslations lang s = (d, s)" by (simp add: loadTranslations_memo)
next
  assume a: "\<not> loaded s lang \<and> network s (localeUrl lang) = Response True (Some d) \<and> truthy d"
  then have l: "loadTranslations lang s =
       (d, s\<lparr>fetched := fetched s @ [localeUrl lang],
              dictionaries := (dictionaries s)(lang \<mapsto> d)\<rparr>)"
    by (simp add: loadTranslations_success)
  show "fst (loadTranslations lang s) = d" by (simp add: l)
  show "fetched (snd (loadTranslations lang s)) = fetched s @ [localeUrl lang]" by (simp add: l)
  show "loadTranslations lang (snd (loadTranslations lang s)) =
        (d, snd (loadTranslations lang s))"
    using a by (simp add: l loadTranslations_memo)
next
  assume "\<not> loaded s lang \<and> fetchFails s lang \<and> lang \<noteq> DEFAULT_LANGUAGE \<and>
    dictionaries s DEFAULT_LANGUAGE = Some d0 \<and> truthy d0"
  then show "fst (loadTranslations lang s) = d0"
    by (simp add: loadTranslations_fails_default_loaded)
next
  assume a: "\<not> loaded s lang \<and> fetchFails s lang \<and> lang \<noteq> DEFAULT_LANGUAGE \<and>
    \<not> loaded s DEFAULT_LANGUAGE \<and>
    network s (localeUrl DEFAULT_LANGUAGE) = Response True (Some d0)"
  then have l: "loadTranslations lang s =
      loadTranslations DEFAULT_LANGUAGE (s\<lparr>fetched := fetched s @ [localeUrl lang]\<rparr>)"
    by (simp add: loadTranslations_fails_recurse)
  show "fst (loadTranslations lang s) = d0"
    using a by (simp add: l loadTranslations_success)
  show "dictionaries (snd (loadTranslations lang s)) DEFAULT_LANGUAGE = Some d0"
    using a by (simp add: l loadTranslations_success)
next
  assume a: "\<not> loaded s lang \<and> fetchFails s lang \<and> lang \<noteq> DEFAULT_LANGUAGE \<and> lang \<noteq> []"
  then show "dictionaries (snd (loadTranslations lang s)) lang = dictionaries s lang"
    by (simp add: loadTranslations_fails_keeps)
  from a show "getTranslation (snd (loadTranslations lang s)) key (Some lang) =
        getTranslation (snd (loadTranslations lang s)) key (Some DEFAULT_LANGUAGE)"
    by (simp add: getTranslation_unloaded loadTranslations_fails_unloaded)
next
  assume a: "\<not> loaded s lang \<and> fetchFails s lang \<and>
    \<not> loaded s DEFAULT_LANGUAGE \<and> fetchFails s DEFAULT_LANGUAGE"
  show "fst (loadTranslations lang s) = JObj []"
  proof (cases "lang = DEFAULT_LANGUAGE")
    case True
    then show ?thesis using a by (simp add: loadTranslations_default_fails)
  next
    case False
    then show ?thesis using a
      by (simp add: loadTranslations_fails_recurse loadTranslations_default_fails)
  qed
qed

theorem loadTranslations_memo_and_fallback_witness:
  "loadTranslations ''es'' engineFr = (esDict, engineFr) \<and>
   fst (loadTranslations ''es'' browser0) = esDict \<and>
   fetched (snd (loadTranslations ''es'' browser0)) = [''/i18n/locales/es.json''] \<and>
   loadTranslations ''es'' (snd (loadTranslations ''es'' browser0)) =
     (esDict, snd (loadTranslations ''es'' browser0)) \<and>
   fst (loadTranslations ''pt'' engineFr) = esDict \<and>
   fst (loadTranslations ''fr'' browser0) = esDict \<and>
   dictionaries (snd (loadTranslations ''fr'' browser0)) ''es'' = Some esDict \<and>
   getTranslation (snd (loadTranslations ''fr'' browser0)) (Some ''nav.home'') (Some ''fr'') =
     getTranslation (snd (loadTranslations ''fr'' browser0)) (Some ''nav.home'') (Some ''es'') \<and>
   fst (loadTranslations ''fr'' offline) = JObj [] \<and>
   fst (loadTranslations ''es'' offline) = JObj []"
proof -
  have tr: "truthy esDict" by (simp add: esDict_def)
  have es: "dictionaries engineFr ''es'' = Some esDict" by (simp add: engineFr_def)
  have esD: "dictionaries engineFr DEFAULT_LANGUAGE = Some esDict"
    by (simp add: engineFr_def DEFAULT_LANGUAGE_def)
  have nl: "\<not> loaded browser0 l" for l by (simp add: loaded_def browser0_def)
  have nlD: "\<not> loaded browser0 DEFAULT_LANGUAGE" by (rule nl)
  have net: "network browser0 (localeUrl ''es'') = Response True (Some esDict)"
    by (simp add: browser0_def localeUrl_def)
  have netD: "network browser0 (localeUrl DEFAULT_LANGUAGE) = Response True (Some esDict)"
    by (simp add: browser0_def localeUrl_def DEFAULT_LANGUAGE_def)
  have ff: "fetchFails browser0 ''fr''" by (simp add: fetchFails_def browser0_def localeUrl_def)
  have pt: "\<not> loaded engineFr ''pt''" by (simp add: loaded_def engineFr_def)
  have fp: "fetchFails engineFr ''pt''"
    by (simp add: fetchFails_def engineFr_def browser0_def localeUrl_def)
  have ol: "\<not> loaded offline l" for l by (simp add: loaded_def offline_def browser0_def)
  have of: "fetchFails offline l" for l by (simp add: fetchFails_def offline_def)
  have ne: "''fr'' \<noteq> DEFAULT_LANGUAGE" "''pt'' \<noteq> DEFAULT_LANGUAGE"
    by (simp_all add: DEFAULT_LANGUAGE_def)
  note th = loadTranslations_memo_and_fallback
  from th [where s = engineFr and lang = "''es''" and d = esDict] es tr
  have 1: "loadTranslations ''es'' engineFr = (esDict, engineFr)" by simp
  from th [where s = browser0 and lang = "''es''" and d = esDict] nl net tr
  have 2: "fst (loadTranslations ''es'' browser0) = esDict \<and>
      fetched (snd (loadTranslations ''es'' browser0)) = [''/i18n/locales/es.json''] \<and>
      loadTranslations ''es'' (snd (loadTranslations ''es'' browser0)) =
        (esDict, snd (loadTranslations ''es'' browser0))"
    by (simp add: browser0_def localeUrl_def)
  from th [where s = engineFr and lang = "''pt''" and ?d0.0 = esDict] pt fp ne esD tr
  have 3: "fst (loadTranslations ''pt'' engineFr) = esDict" by simp
  from th [where s = browser0 and lang = "''fr''" and ?d0.0 = esDict and key = "Some ''nav.home''"]
    nl ff ne netD
  have 4: "fst (loadTranslations ''fr'' browser0) = esDict \<and>
     dictionaries (snd (loadTranslations ''fr'' browser0)) ''es'' = Some esDict \<and>
     getTranslation (snd (loadTranslations ''fr'' browser0)) (Some ''nav.home'') (Some ''fr'') =
     getTranslation (snd (loadTranslations ''fr'' browser0)) (Some ''nav.home'') (Some ''es'')"
    by (simp add: DEFAULT_LANGUAGE_def)
  from th [where s = offline and lang = "''fr''"] ol of
  have 5: "fst (loadTranslations ''fr'' offline) = JObj []" by simp
  from th [where s = offline and lang = "''es''"] ol of
  have 6: "fst (loadTranslations ''es'' offline) = JObj []" by simp
  from 1 2 3 4 5 6 show ?thesis by simp
qed

subsection \<open>Detecting the locale\<close>

text \<open>When a source returns a locale code, in terms of the browser.\<close>

lemma supported_nonempty: "supported l \<Longrightarrow> l \<noteq> []"
  by (auto simp: supported_def SUPPORTED_LANGUAGES_def)

lemma not_supported_empty [simp]: "\<not> supported []"
  by (simp add: supported_def SUPPORTED_LANGUAGES_def)

lemma fromUrl_Return:
  "fromUrl s = Return l \<longleftrightarrow> urlLang s = Gives (Some l) \<and> supported l"
  by (auto simp: fromUrl_def supported_nonempty split: access.splits option.splits)

lemma fromStorage_Return:
  "fromStorage s = Return l \<longleftrightarrow>
     (\<exists>w. localStorage s = Storage True w (Some l)) \<and> supported l"
  by (auto simp: fromStorage_def supported_nonempty split: storage.splits option.splits)

lemma fromNavigator_Return:
  "fromNavigator s = Return l \<longleftrightarrow>
     (\<exists>language. navigatorLanguage s = Gives (Some language) \<and>
        l = takeWhile (\<lambda>c. c \<noteq> CHR ''-'') language) \<and> supported l"
  by (auto simp: fromNavigator_def Let_def dest: supported_nonempty
      split: access.splits option.splits if_splits)

text \<open>
  C4, as the code has it. \<open>detectLanguage\<close> reads the URL parameter, then the stored
  value, then the first subtag of the browser's language, and returns the first value
  that is supported; a source that is absent or holds no supported value gives no signal,
  and the next one is read; when no source gives a supported value the default locale is
  returned. An exception raised by a source, before any source returned, is caught by the
  one \<open>catch\<close> clause of the method, which returns the default locale without reading
  the sources that follow. The method never raises.
\<close>

theorem detectLanguage_priority:
  "(urlLang s = Gives (Some l) \<and> supported l \<longrightarrow> detectLanguage s = l) \<and>
   (fromUrl s = Continue \<and> localStorage s = Storage True w (Some l) \<and> supported l
      \<longrightarrow> detectLanguage s = l) \<and>
   (fromUrl s = Continue \<and> fromStorage s = Continue \<and>
    navigatorLanguage s = Gives (Some language) \<and>
    supported (takeWhile (\<lambda>c. c \<noteq> CHR ''-'') language)
      \<longrightarrow> detectLanguage s = takeWhile (\<lambda>c. c \<noteq> CHR ''-'') language) \<and>
   (fromUrl s = Continue \<and> fromStorage s = Continue \<and> fromNavigator s = Continue
      \<longrightarrow> detectLanguage s = DEFAULT_LANGUAGE) \<and>
   (fromUrl s = Raise \<or> fromUrl s = Continue \<and> fromStorage s = Raise \<or>
    fromUrl s = Continue \<and> fromStorage s = Continue \<and> fromNavigator s = Raise
      \<longrightarrow> detectLanguage s = DEFAULT_LANGUAGE)"
proof (intro conjI impI)
  assume "urlLang s = Gives (Some l) \<and> supported l"
  then have "fromUrl s = Return l" by (simp add: fromUrl_Return)
  then show "detectLanguage s = l" by (simp add: detectLanguage_def detectTry_def andThen_def)
next
  assume a: "fromUrl s = Continue \<and> localStorage s = Storage True w (Some l) \<and> supported l"
  then have "fromStorage s = Return l" by (auto simp: fromStorage_Return)
  with a show "detectLanguage s = l"
    by (simp add: detectLanguage_def detectTry_def andThen_def)
next
  assume a: "fromUrl s = Continue \<and> fromStorage s = Continue \<and>
    navigatorLanguage s = Gives (Some language) \<and>
    supported (takeWhile (\<lambda>c. c \<noteq> CHR ''-'') language)"
  then have "fromNavigator s = Return (takeWhile (\<lambda>c. c \<noteq> CHR ''-'') language)"
    by (auto simp: fromNavigator_Return)
  with a show "detectLanguage s = takeWhile (\<lambda>c. c \<noteq> CHR ''-'') language"
    by (simp add: detectLanguage_def detectTry_def andThen_def)
next
  assume "fromUrl s = Continue \<and> fromStorage s = Continue \<and> fromNavigator s = Continue"
  then show "detectLanguage s = DEFAULT_LANGUAGE"
    by (simp add: detectLanguage_def detectTry_def andThen_def)
next
  assume "fromUrl s = Raise \<or> fromUrl s = Continue \<and> fromStorage s = Raise \<or>
    fromUrl s = Continue \<and> fromStorage s = Continue \<and> fromNavigator s = Raise"
  then show "detectLanguage s = DEFAULT_LANGUAGE"
    by (auto simp: detectLanguage_def detectTry_def andThen_def)
qed

theorem detectLanguage_priority_witness:
  "detectLanguage (visitor (Some ''fr'') (Some ''es'') (Some ''de'')) = ''fr'' \<and>
   detectLanguage (visitor None (Some ''pt'') (Some ''en'')) = ''pt'' \<and>
   detectLanguage (visitor (Some ''xx'') None (Some ''en-US'')) = ''en'' \<and>
   detectLanguage (visitor None (Some ''zz'') (Some ''de-DE'')) = ''es'' \<and>
   detectLanguage blockedStorage = ''es''"
proof -
  have sup: "supported ''fr''" "supported ''pt''" "supported ''en''"
    by (simp_all add: supported_def SUPPORTED_LANGUAGES_def)
  have 1: "urlLang (visitor (Some ''fr'') (Some ''es'') (Some ''de'')) = Gives (Some ''fr'')"
    by (simp add: visitor_def)
  have 2: "fromUrl (visitor None (Some ''pt'') (Some ''en'')) = Continue \<and>
           localStorage (visitor None (Some ''pt'') (Some ''en'')) =
             Storage True True (Some ''pt'')"
    by (simp add: fromUrl_def visitor_def)
  have 3: "fromUrl (visitor (Some ''xx'') None (Some ''en-US'')) = Continue \<and>
           fromStorage (visitor (Some ''xx'') None (Some ''en-US'')) = Continue \<and>
           navigatorLanguage (visitor (Some ''xx'') None (Some ''en-US'')) =
             Gives (Some ''en-US'') \<and>
           takeWhile (\<lambda>c. c \<noteq> CHR ''-'') ''en-US'' = ''en''"
    by (simp add: fromUrl_def fromStorage_def visitor_def supported_def
        SUPPORTED_LANGUAGES_def)
  have 4: "fromUrl (visitor None (Some ''zz'') (Some ''de-DE'')) = Continue \<and>
           fromStorage (visitor None (Some ''zz'') (Some ''de-DE'')) = Continue \<and>
           fromNavigator (visitor None (Some ''zz'') (Some ''de-DE'')) = Continue"
    by (simp add: fromUrl_def fromStorage_def fromNavigator_def visitor_def supported_def
        SUPPORTED_LANGUAGES_def)
  have 5: "fromUrl blockedStorage = Continue \<and> fromStorage blockedStorage = Raise"
    by (simp add: fromUrl_def fromStorage_def blockedStorage_def browser0_def)
  note th = detectLanguage_priority
  from th [where s = "visitor (Some ''fr'') (Some ''es'') (Some ''de'')" and l = "''fr''"] 1 sup
  have a: "detectLanguage (visitor (Some ''fr'') (Some ''es'') (Some ''de'')) = ''fr''" by simp
  from th [where s = "visitor None (Some ''pt'') (Some ''en'')" and l = "''pt''" and w = True]
    2 sup
  have b: "detectLanguage (visitor None (Some ''pt'') (Some ''en'')) = ''pt''" by simp
  from th [where s = "visitor (Some ''xx'') None (Some ''en-US'')" and language = "''en-US''"]
    3 sup
  have c: "detectLanguage (visitor (Some ''xx'') None (Some ''en-US'')) = ''en''" by simp
  from th [where s = "visitor None (Some ''zz'') (Some ''de-DE'')"] 4
  have d: "detectLanguage (visitor None (Some ''zz'') (Some ''de-DE'')) = ''es''"
    by (simp add: DEFAULT_LANGUAGE_def)
  from th [where s = blockedStorage] 5
  have e: "detectLanguage blockedStorage = ''es''" by (simp add: DEFAULT_LANGUAGE_def)
  from a b c d e show ?thesis by simp
qed

text \<open>
  The claim C4 as it was stated does not hold: with no URL parameter, a storage that
  raises when read and a browser language \<open>fr-FR\<close>, the next source would give the supported
  code \<open>fr\<close>, but it is not consulted and the default \<open>es\<close> is returned.
\<close>

theorem detectLanguage_exception_skips_browser:
  "fromUrl blockedStorage = Continue \<and> fromStorage blockedStorage = Raise \<and>
   fromNavigator blockedStorage = Return ''fr'' \<and> detectLanguage blockedStorage = ''es''"
  by (simp add: fromUrl_def fromStorage_def fromNavigator_def detectLanguage_def detectTry_def
      andThen_def blockedStorage_def browser0_def supported_def SUPPORTED_LANGUAGES_def
      DEFAULT_LANGUAGE_def)

subsection \<open>Updating an element that has child elements\<close>

lemma textBearing_not_element: "textBearing c \<Longrightarrow> \<not> isElement c"
  by (cases c) auto

lemma replaceFirstText_children:
  "replaceFirstText t ch = Some ch' \<Longrightarrow> children ch' = children ch"
  by (induction ch arbitrary: ch')
     (auto simp: children_def textBearing_not_element split: if_splits)



text \<open>
  Whatever the element, unless it is an \<open>option\<close>, its child elements are the same after
  \<open>updateElement\<close>.
\<close>

lemma updateElement_keeps_child_elements:
  assumes "tg \<noteq> ''option''"
  shows "children (childNodes (updateElement (Element tg as ch) translation)) = children ch"
proof (cases "replaceFirstText translation ch")
  case None
  with assms show ?thesis by (auto simp: children_def setTextContent_def)
next
  case (Some ch')
  with assms replaceFirstText_children [OF Some] show ?thesis
    by (auto simp: children_def setTextContent_def)
qed



subsection \<open>The pass over the document\<close>

lemma setAttr_idem: "setAttr n v (setAttr n v as) = setAttr n v as"
  by (induction n v as rule: setAttr.induct) auto

lemma map_of_setAttr_other: "k \<noteq> n \<Longrightarrow> map_of (setAttr n v as) k = map_of as k"
  by (induction n v as rule: setAttr.induct) auto

lemma typeOf_setAttr: "n \<noteq> ''type'' \<Longrightarrow> typeOf tg (setAttr n v as) = typeOf tg as"
  by (simp add: typeOf_def map_of_setAttr_other)

lemma replaceFirstText_again:
  "\<not> blank t \<Longrightarrow> replaceFirstText t ch = Some ch' \<Longrightarrow> replaceFirstText t ch' = Some ch'"
  by (induction ch arbitrary: ch') (auto split: if_splits)

lemma not_blank_nonempty: "\<not> blank t \<Longrightarrow> t \<noteq> []"
  by (auto simp: blank_def)

text \<open>
  With a translation that is not blank, a second \<open>updateElement\<close> changes nothing.
\<close>

lemma updateElement_idem:
  assumes "\<not> blank t"
  shows "updateElement (updateElement e t) t = updateElement e t"
proof (cases e)
  case (Element tg as ch)
  show ?thesis
  proof (cases "replaceFirstText t ch")
    case None
    with assms Element show ?thesis
      by (auto simp: setAttr_idem typeOf_setAttr setTextContent_def children_def
          not_blank_nonempty)
  next
    case (Some ch')
    with assms Element replaceFirstText_again [OF assms Some] replaceFirstText_children [OF Some]
    show ?thesis
      by (auto simp: setAttr_idem typeOf_setAttr setTextContent_def children_def
          not_blank_nonempty)
  qed
qed simp_all

text \<open>
  \<open>updateElement\<close> commutes with any change of the child elements that keeps them
  elements: the order in which a marked element and its descendants are served does not
  matter.
\<close>

lemma map_fix_non_elements:
  assumes "\<And>n. \<not> isElement n \<Longrightarrow> f n = n" and "children ch = []"
  shows "map f ch = ch"
  using assms(2) by (induction ch) (auto simp: children_def assms(1) split: if_splits)

lemma children_map_empty:
  assumes "\<And>n. \<not> isElement n \<Longrightarrow> f n = n" and "\<And>n. isElement n \<Longrightarrow> isElement (f n)"
  shows "children (map f ch) = [] \<longleftrightarrow> children ch = []"
proof (induction ch)
  case (Cons c cs)
  then show ?case using assms [of c] by (cases "isElement c") (auto simp: children_def)
qed (simp add: children_def)

lemma textBearing_map:
  assumes "\<And>n. \<not> isElement n \<Longrightarrow> f n = n" and "\<And>n. isElement n \<Longrightarrow> isElement (f n)"
  shows "textBearing (f c) = textBearing c"
proof (cases "isElement c")
  case True
  with assms(2) [of c] show ?thesis
    using textBearing_not_element by blast
next
  case False
  with assms(1) show ?thesis by simp
qed

lemma replaceFirstText_map:
  assumes "\<And>n. \<not> isElement n \<Longrightarrow> f n = n" and "\<And>n. isElement n \<Longrightarrow> isElement (f n)"
  shows "replaceFirstText t (map f ch) = map_option (map f) (replaceFirstText t ch)"
proof (induction ch)
  case Nil
  then show ?case by simp
next
  case (Cons child rest)
  have "f (TextNode t) = TextNode t" using assms(1) by simp
  with Cons show ?case
    by (simp add: textBearing_map [OF assms] option.map_comp comp_def)
qed

lemma updateElement_map_children:
  assumes fx: "\<And>n. \<not> isElement n \<Longrightarrow> f n = n"
    and el: "\<And>n. isElement n \<Longrightarrow> isElement (f n)"
  shows "updateElement (Element tg as (map f ch)) t =
           (case updateElement (Element tg as ch) t of
              Element tg' as' ch' \<Rightarrow> Element tg' as' (map f ch')
            | n \<Rightarrow> n)"
proof (cases "children ch = []")
  case True
  with fx have "map f ch = ch" by (rule map_fix_non_elements)
  with True fx [of "TextNode t"] show ?thesis by (auto simp: setTextContent_def)
next
  case False
  then have "children (map f ch) \<noteq> []" using children_map_empty [OF fx el] by blast
  with False fx [of "TextNode t"] show ?thesis
    by (auto simp: setTextContent_def replaceFirstText_map [OF fx el] split: option.splits)
qed

text \<open>One pass over the page with the icon link, step by step.\<close>

lemma translated_sep:
  "currentLang s = ''es'' \<Longrightarrow> dictionaries s = [''es'' \<mapsto> esDict] \<Longrightarrow>
     translated s ''sep'' = Some '' ''"
  by (simp add: translated_def getTranslation_def targetLang_def orElse_def
      DEFAULT_LANGUAGE_def esDict_def)

lemma blank_space: "blank '' ''"
  by (simp add: blank_def isWhiteSpace_def)

lemma applyText_link:
  assumes "translated s ''sep'' = Some '' ''"
  shows "applyText s (Element ''html'' [] [Element ''body'' []
           [Element ''a'' [(''data-i18n'', ''sep'')] [Element ''i'' [] []]]]) =
         Element ''html'' [] [Element ''body'' []
           [Element ''a'' [(''data-i18n'', ''sep'')] [TextNode '' '', Element ''i'' [] []]]]"
    and "applyText s (Element ''html'' [] [Element ''body'' []
           [Element ''a'' [(''data-i18n'', ''sep'')] [TextNode '' '', Element ''i'' [] []]]]) =
         Element ''html'' [] [Element ''body'' []
           [Element ''a'' [(''data-i18n'', ''sep'')]
              [TextNode '' '', TextNode '' '', Element ''i'' [] []]]]"
  using assms by (simp_all add: children_def blank_space)

lemma unmarked_link:
  assumes "d = Element ''html'' [] [Element ''body'' []
           [Element ''a'' [(''data-i18n'', ''sep'')] ch]]"
    and "ch = [TextNode '' '', Element ''i'' [] []] \<or>
         ch = [TextNode '' '', TextNode '' '', Element ''i'' [] []]"
  shows "applyHtml s d = d" and "applyAttr s d = d" and "metaKey name d = None"
  using assms by (auto simp: metaKey_def)

text \<open>
  C6 fails on the code. A pass is not idempotent when a translation is blank: for a marked
  element that holds child elements and no text, every pass finds no text node that is not
  blank and puts one more text node in front. After one pass the link of the page holds
  one blank text node and its icon, after two passes two blank text nodes and its icon:
  the second pass changes the document.
\<close>

theorem applyTranslations_twice_grows:
  "documentElement (applyTranslations engineEs) =
     Some (Element ''html'' [] [Element ''body'' []
       [Element ''a'' [(''data-i18n'', ''sep'')] [TextNode '' '', Element ''i'' [] []]]]) \<and>
   documentElement (applyTranslations (applyTranslations engineEs)) =
     Some (Element ''html'' [] [Element ''body'' []
       [Element ''a'' [(''data-i18n'', ''sep'')]
          [TextNode '' '', TextNode '' '', Element ''i'' [] []]]]) \<and>
   applyTranslations (applyTranslations engineEs) \<noteq> applyTranslations engineEs"
proof -
  let ?d = "\<lambda>ch. Element ''html'' [] [Element ''body'' []
       [Element ''a'' [(''data-i18n'', ''sep'')] ch]]"
  have step: "documentElement (applyTranslations s) = Some (?d (TextNode '' '' # ch)) \<and>
      \<not> isApplying (applyTranslations s) \<and> currentLang (applyTranslations s) = ''es'' \<and>
      dictionaries (applyTranslations s) = [''es'' \<mapsto> esDict]"
    if s: "\<not> isApplying s" "currentLang s = ''es''" "dictionaries s = [''es'' \<mapsto> esDict]"
      "documentElement s = Some (?d ch)"
      and ch: "ch = [Element ''i'' [] []] \<or> ch = [TextNode '' '', Element ''i'' [] []]"
    for s ch
  proof -
    have tr: "translated (s\<lparr>isApplying := a, observer := ob\<rparr>) ''sep'' = Some '' ''" for a ob
      using s by (simp add: translated_sep)
    have tx: "applyText (s\<lparr>isApplying := a, observer := ob\<rparr>) (?d ch) =
        ?d (TextNode '' '' # ch)" for a ob
      using ch applyText_link [OF tr] by auto
    have ch': "TextNode '' '' # ch = [TextNode '' '', Element ''i'' [] []] \<or>
         TextNode '' '' # ch = [TextNode '' '', TextNode '' '', Element ''i'' [] []]"
      using ch by auto
    note un = unmarked_link [OF refl ch']
    show ?thesis
      using s by (simp add: applyTranslations_def Let_def tx un applyTitle_def
          applyDescription_def del: applyText.simps applyHtml.simps applyAttr.simps)
  qed
  have e: "\<not> isApplying engineEs" "currentLang engineEs = ''es''"
    "dictionaries engineEs = [''es'' \<mapsto> esDict]"
    "documentElement engineEs = Some (?d [Element ''i'' [] []])"
    by (simp_all add: engineEs_def browser0_def page_def iconLink_def)
  from step [OF e] have 1: "documentElement (applyTranslations engineEs) =
      Some (?d [TextNode '' '', Element ''i'' [] []])"
    and e': "\<not> isApplying (applyTranslations engineEs)"
      "currentLang (applyTranslations engineEs) = ''es''"
      "dictionaries (applyTranslations engineEs) = [''es'' \<mapsto> esDict]"
    by simp_all
  from step [OF e' 1] have 2: "documentElement (applyTranslations (applyTranslations engineEs)) =
      Some (?d [TextNode '' '', TextNode '' '', Element ''i'' [] []])" by simp
  have 3: "applyTranslations (applyTranslations engineEs) \<noteq> applyTranslations engineEs"
  proof
    assume "applyTranslations (applyTranslations engineEs) = applyTranslations engineEs"
    with 1 2 show False by simp
  qed
  from 1 2 3 show ?thesis by simp
qed

subsection \<open>Changing the locale\<close>

text \<open>What loading a dictionary, a pass and the notification leave as it is.\<close>

lemma fetchTranslations_keeps:
  "currentLang (snd (fetchTranslations lang s)) = currentLang s \<and>
   observers (snd (fetchTranslations lang s)) = observers s \<and>
   calls (snd (fetchTranslations lang s)) = calls s \<and>
   events (snd (fetchTranslations lang s)) = events s \<and>
   localStorage (snd (fetchTranslations lang s)) = localStorage s \<and>
   documentElement (snd (fetchTranslations lang s)) = documentElement s \<and>
   isApplying (snd (fetchTranslations lang s)) = isApplying s"
  by (auto simp: fetchTranslations_def Let_def split: response.splits option.splits)

lemma loadTranslations_keeps_all:
  "currentLang (snd (loadTranslations lang s)) = currentLang s \<and>
   observers (snd (loadTranslations lang s)) = observers s \<and>
   calls (snd (loadTranslations lang s)) = calls s \<and>
   events (snd (loadTranslations lang s)) = events s \<and>
   localStorage (snd (loadTranslations lang s)) = localStorage s \<and>
   documentElement (snd (loadTranslations lang s)) = documentElement s \<and>
   isApplying (snd (loadTranslations lang s)) = isApplying s"
proof (induction lang s rule: loadTranslations.induct)
  case (1 lang s)
  show ?case
  proof (cases "loaded s lang")
    case True
    then show ?thesis by (subst (1 2 3 4 5 6 7) loadTranslations.simps) simp
  next
    case False
    obtain r s' where f: "fetchTranslations lang s = (r, s')" by (cases "fetchTranslations lang s")
    from fetchTranslations_keeps [of lang s] f
    have k: "currentLang s' = currentLang s \<and> observers s' = observers s \<and>
        calls s' = calls s \<and> events s' = events s \<and> localStorage s' = localStorage s \<and>
        documentElement s' = documentElement s \<and> isApplying s' = isApplying s" by simp
    show ?thesis
    proof (cases r)
      case (Some d)
      with False f k show ?thesis by (subst (1 2 3 4 5 6 7) loadTranslations.simps) simp
    next
      case None
      show ?thesis
      proof (cases "lang \<noteq> DEFAULT_LANGUAGE \<and> \<not> loaded s' DEFAULT_LANGUAGE")
        case True
        from "1.IH" [OF False f [symmetric] None True] True k False f None show ?thesis
          by (subst (1 2 3 4 5 6 7) loadTranslations.simps) simp
      next
        case F: False
        with k False f None show ?thesis
          by (subst (1 2 3 4 5 6 7) loadTranslations.simps) auto
      qed
    qed
  qed
qed

lemma loadTranslations_keeps:
  "currentLang (snd (loadTranslations lang s)) = currentLang s"
  "observers (snd (loadTranslations lang s)) = observers s"
  "calls (snd (loadTranslations lang s)) = calls s"
  "events (snd (loadTranslations lang s)) = events s"
  "localStorage (snd (loadTranslations lang s)) = localStorage s"
  "documentElement (snd (loadTranslations lang s)) = documentElement s"
  "isApplying (snd (loadTranslations lang s)) = isApplying s"
  using loadTranslations_keeps_all [of lang s] by simp_all

lemma applyTitle_keeps:
  "currentLang (applyTitle s) = currentLang s"
  "observers (applyTitle s) = observers s"
  "calls (applyTitle s) = calls s"
  "events (applyTitle s) = events s"
  "dictionaries (applyTitle s) = dictionaries s"
  "localStorage (applyTitle s) = localStorage s"
  "observer (applyTitle s) = observer s"
  by (simp_all add: applyTitle_def split: option.splits)

lemma applyDescription_keeps:
  "currentLang (applyDescription s) = currentLang s"
  "observers (applyDescription s) = observers s"
  "calls (applyDescription s) = calls s"
  "events (applyDescription s) = events s"
  "dictionaries (applyDescription s) = dictionaries s"
  "localStorage (applyDescription s) = localStorage s"
  "observer (applyDescription s) = observer s"
  by (simp_all add: applyDescription_def split: option.splits)

lemma applyTranslations_keeps:
  "currentLang (applyTranslations s) = currentLang s"
  "observers (applyTranslations s) = observers s"
  "calls (applyTranslations s) = calls s"
  "events (applyTranslations s) = events s"
  "dictionaries (applyTranslations s) = dictionaries s"
  "localStorage (applyTranslations s) = localStorage s"
  by (simp_all add: applyTranslations_def Let_def applyTitle_keeps applyDescription_keeps)

lemma notifyEach_calls:
  "calls (notifyEach lang fs s) = calls s @ map (\<lambda>f. (cbId f, lang)) fs"
  by (induction fs arbitrary: s) (auto simp: invoke_def split: control.splits)

lemma notifyEach_keeps:
  "currentLang (notifyEach lang fs s) = currentLang s"
  "observers (notifyEach lang fs s) = observers s"
  by (induction fs arbitrary: s) (auto simp: invoke_def split: control.splits)

lemma foldl_onLanguageChange:
  "observers (foldl (\<lambda>s f. onLanguageChange (Some f) s) s fs) = observers s @ fs"
  "calls (foldl (\<lambda>s f. onLanguageChange (Some f) s) s fs) = calls s"
  by (induction fs arbitrary: s) (auto simp: onLanguageChange_def)

lemma changeLanguage_calls:
  "supported lang \<Longrightarrow>
     calls (changeLanguage lang s) = calls s @ map (\<lambda>f. (cbId f, lang)) (observers s)"
  by (simp add: changeLanguage_def Let_def notifyObservers_def notifyEach_calls
      applyTranslations_keeps loadTranslations_keeps)

text \<open>
  C7. For a locale code that is not supported, \<open>changeLanguage\<close> returns and leaves the
  whole state as it was: the active locale, the stored value, the document with its
  language attribute, the dictionaries and the subscribers, and no subscriber is called.
\<close>

theorem changeLanguage_unsupported_noop:
  assumes "lang \<notin> set SUPPORTED_LANGUAGES"
  shows "changeLanguage lang s = s"
  using assms by (simp add: changeLanguage_def supported_def)

theorem changeLanguage_unsupported_noop_witness:
  "changeLanguage ''de'' engineFr = engineFr \<and> changeLanguage [] engineFr = engineFr"
proof -
  have "''de'' \<notin> set SUPPORTED_LANGUAGES" and "[] \<notin> set SUPPORTED_LANGUAGES"
    by (simp_all add: SUPPORTED_LANGUAGES_def)
  then show ?thesis
    using changeLanguage_unsupported_noop [of "''de''" engineFr]
      changeLanguage_unsupported_noop [of "[]" engineFr] by simp
qed

text \<open>
  C8. When the locale is changed to a supported code, the subscribers registered with
  \<open>onLanguageChange\<close> are called once each, in the order of their registration, with the
  new code, after those registered before; this holds whichever of them raise, so a
  subscriber that raises keeps no later one from being called.
\<close>

theorem changeLanguage_notifies_in_order:
  assumes "lang \<in> set SUPPORTED_LANGUAGES"
  shows "calls (changeLanguage lang (foldl (\<lambda>s f. onLanguageChange (Some f) s) s fs)) =
           calls s @ map (\<lambda>f. (cbId f, lang)) (observers s @ fs)"
  using assms by (simp add: changeLanguage_calls supported_def foldl_onLanguageChange)

theorem changeLanguage_notifies_in_order_witness:
  "calls (changeLanguage ''pt''
     (onLanguageChange (Some (listener 3 False))
       (onLanguageChange (Some (listener 2 True))
         (onLanguageChange (Some (listener 1 False)) engineFr)))) =
   [(1, ''pt''), (2, ''pt''), (3, ''pt'')]"
proof -
  have "''pt'' \<in> set SUPPORTED_LANGUAGES" by (simp add: SUPPORTED_LANGUAGES_def)
  from changeLanguage_notifies_in_order
    [OF this, of engineFr "[listener 1 False, listener 2 True, listener 3 False]"]
  show ?thesis by (simp add: engineFr_def browser0_def listener_def)
qed

subsection \<open>The active locale is supported\<close>

lemma detectLanguage_supported: "detectLanguage s \<in> set SUPPORTED_LANGUAGES"
  by (auto simp: detectLanguage_def detectTry_def andThen_def fromUrl_def fromStorage_def
      fromNavigator_def supported_def Let_def SUPPORTED_LANGUAGES_def DEFAULT_LANGUAGE_def
      split: access.splits option.splits storage.splits control.splits if_splits)

lemma changeLanguage_currentLang:
  "currentLang (changeLanguage lang s) = (if supported lang then lang else currentLang s)"
  by (simp add: changeLanguage_def Let_def notifyObservers_def notifyEach_keeps
      applyTranslations_keeps loadTranslations_keeps)

lemma init_currentLang:
  "currentLang (init s) = (if initialized s then currentLang s else detectLanguage s)"
  by (simp add: init_def Let_def applyWhenReady_def applyTranslations_keeps
      loadTranslations_keeps)

text \<open>
  C9. In every state the engine can reach, from its construction in any browser and
  through every call of its methods and every change of the browser, the active locale is
  one of the supported codes: \<open>detectLanguage\<close> returns a validated code or the default,
  and \<open>changeLanguage\<close> stores only a supported code, so a code from the URL, the storage
  or the browser that is not supported never becomes the active locale.
\<close>

theorem currentLang_always_supported:
  assumes "reachable s"
  shows "currentLang s \<in> set SUPPORTED_LANGUAGES"
  using assms
proof (induction rule: reachable.induct)
  case (constructed b)
  then show ?case by (simp add: construct_def detectLanguage_supported)
next
  case (initialised s)
  then show ?case by (simp add: init_currentLang detectLanguage_supported)
next
  case (ready s)
  then show ?case by (simp add: applyWhenReady_def applyTranslations_keeps)
next
  case (observing s)
  then show ?case by (simp add: observeDOM_def)
next
  case (changed s lang)
  then show ?case by (simp add: changeLanguage_currentLang supported_def)
next
  case (loading s lang)
  then show ?case by (simp add: loadTranslations_keeps)
next
  case (applied s)
  then show ?case by (simp add: applyTranslations_keeps)
next
  case (subscribed s callback)
  then show ?case by (simp add: onLanguageChange_def split: option.splits)
next
  case (browser s u st n d t l)
  then show ?case by simp
qed

theorem currentLang_always_supported_witness:
  "currentLang (construct intruder) \<in> set SUPPORTED_LANGUAGES \<and>
   currentLang (construct intruder) = ''es'' \<and>
   currentLang (changeLanguage ''de'' (changeLanguage ''fr'' (construct intruder)))
     \<in> set SUPPORTED_LANGUAGES \<and>
   currentLang (changeLanguage ''de'' (changeLanguage ''fr'' (construct intruder))) = ''fr''"
proof -
  have r: "reachable (construct intruder)" by (rule reachable.constructed)
  have r': "reachable (changeLanguage ''de'' (changeLanguage ''fr'' (construct intruder)))"
    by (intro reachable.changed r)
  have 1: "currentLang (construct intruder) = ''es''"
    by (simp add: construct_def detectLanguage_def detectTry_def andThen_def fromUrl_def
        fromStorage_def fromNavigator_def intruder_def browser0_def supported_def
        SUPPORTED_LANGUAGES_def DEFAULT_LANGUAGE_def)
  have 2: "currentLang (changeLanguage ''de'' (changeLanguage ''fr'' (construct intruder))) = ''fr''"
    by (simp add: changeLanguage_currentLang supported_def SUPPORTED_LANGUAGES_def)
  from currentLang_always_supported [OF r] currentLang_always_supported [OF r'] 1 2
  show ?thesis by simp
qed

subsection \<open>Plural forms\<close>

text \<open>
  C10. For every count, \<open>pluralize\<close> returns the singular form exactly when the count is
  at most one if the target locale is \<open>fr\<close> or \<open>pt\<close> (so for zero and for negative counts),
  and exactly when the count equals one for every other locale (so zero gives the plural);
  in every other case it returns the plural form. The target locale is the one given, or
  the active locale when none or the empty one is given. A count that is not a number is
  neither at most one nor equal to one.
\<close>

theorem pluralize_rule:
  "(l \<in> {''fr'', ''pt''} \<longrightarrow>
      pluralize s (Finite r) singular plural (Some l) = (if r \<le> 1 then singular else plural) \<and>
      pluralize s NegInfinity singular plural (Some l) = singular) \<and>
   (l \<notin> {''fr'', ''pt''} \<and> l \<noteq> [] \<longrightarrow>
      pluralize s (Finite r) singular plural (Some l) = (if r = 1 then singular else plural) \<and>
      pluralize s NegInfinity singular plural (Some l) = plural) \<and>
   (currentLang s \<in> {''fr'', ''pt''} \<longrightarrow>
      pluralize s (Finite r) singular plural None = (if r \<le> 1 then singular else plural) \<and>
      pluralize s (Finite r) singular plural (Some []) =
        (if r \<le> 1 then singular else plural)) \<and>
   (currentLang s \<notin> {''fr'', ''pt''} \<longrightarrow>
      pluralize s (Finite r) singular plural None = (if r = 1 then singular else plural) \<and>
      pluralize s (Finite r) singular plural (Some []) =
        (if r = 1 then singular else plural)) \<and>
   pluralize s NaN singular plural lang = plural \<and>
   pluralize s PosInfinity singular plural lang = plural \<and>
   pluralize s (Finite 0) singular plural (Some ''fr'') = singular \<and>
   pluralize s (Finite 0) singular plural (Some ''pt'') = singular \<and>
   pluralize s (Finite (- 3)) singular plural (Some ''fr'') = singular \<and>
   pluralize s (Finite 1) singular plural (Some ''fr'') = singular \<and>
   pluralize s (Finite 5) singular plural (Some ''fr'') = plural \<and>
   pluralize s (Finite 2) singular plural (Some ''pt'') = plural \<and>
   pluralize s (Finite 0) singular plural (Some ''en'') = plural \<and>
   pluralize s (Finite 0) singular plural (Some ''es'') = plural \<and>
   pluralize s (Finite (- 3)) singular plural (Some ''en'') = plural \<and>
   pluralize s (Finite 1) singular plural (Some ''en'') = singular \<and>
   pluralize s (Finite 1) singular plural (Some ''es'') = singular \<and>
   pluralize s (Finite 5) singular plural (Some ''en'') = plural"
  by (auto simp: pluralize_def Let_def targetLang_def)

theorem pluralize_rule_witness:
  "pluralize engineFr (Finite (1 / 2)) ''jour'' ''jours'' (Some ''fr'') = ''jour'' \<and>
   pluralize engineFr (Finite 2) ''jour'' ''jours'' (Some ''fr'') = ''jours'' \<and>
   pluralize engineFr NegInfinity ''jour'' ''jours'' (Some ''pt'') = ''jour'' \<and>
   pluralize engineFr (Finite (1 / 2)) ''day'' ''days'' (Some ''en'') = ''days'' \<and>
   pluralize engineFr (Finite 1) ''day'' ''days'' (Some ''en'') = ''day'' \<and>
   pluralize engineFr NegInfinity ''day'' ''days'' (Some ''en'') = ''days'' \<and>
   pluralize engineFr (Finite 0) ''jour'' ''jours'' None = ''jour'' \<and>
   pluralize engineFr (Finite 3) ''jour'' ''jours'' (Some []) = ''jours'' \<and>
   pluralize engineEs (Finite 0) ''dia'' ''dias'' None = ''dias'' \<and>
   pluralize engineEs (Finite 1) ''dia'' ''dias'' (Some []) = ''dia''"
proof -
  have fr: "''fr'' \<in> {''fr'', ''pt''}" "''pt'' \<in> {''fr'', ''pt''}" by simp_all
  have en: "''en'' \<notin> {''fr'', ''pt''} \<and> ''en'' \<noteq> []" by simp
  have cf: "currentLang engineFr = ''fr''" by (simp add: engineFr_def)
  have ce: "currentLang engineEs = ''es''" by (simp add: engineEs_def)
  note th = pluralize_rule
  from th [where s = engineFr and l = "''fr''" and r = "1 / 2" and
      singular = "''jour''" and plural = "''jours''" and lang = None]
    fr
  have 1: "pluralize engineFr (Finite (1 / 2)) ''jour'' ''jours'' (Some ''fr'') = ''jour''"
    by simp
  from th [where s = engineFr and l = "''fr''" and r = 2 and
      singular = "''jour''" and plural = "''jours''" and lang = None]
    fr
  have 2: "pluralize engineFr (Finite 2) ''jour'' ''jours'' (Some ''fr'') = ''jours''"
    by simp
  from th [where s = engineFr and l = "''pt''" and r = 0 and
      singular = "''jour''" and plural = "''jours''" and lang = None]
    fr
  have 3: "pluralize engineFr NegInfinity ''jour'' ''jours'' (Some ''pt'') = ''jour''"
    by simp
  from th [where s = engineFr and l = "''en''" and r = "1 / 2" and
      singular = "''day''" and plural = "''days''" and lang = None]
    en
  have 4: "pluralize engineFr (Finite (1 / 2)) ''day'' ''days'' (Some ''en'') = ''days''"
    by simp
  from th [where s = engineFr and l = "''en''" and r = 1 and
      singular = "''day''" and plural = "''days''" and lang = None]
    en
  have 5: "pluralize engineFr (Finite 1) ''day'' ''days'' (Some ''en'') = ''day''"
    by simp
  from th [where s = engineFr and l = "''en''" and r = 0 and
      singular = "''day''" and plural = "''days''" and lang = None]
    en
  have 6: "pluralize engineFr NegInfinity ''day'' ''days'' (Some ''en'') = ''days''"
    by simp
  from th [where s = engineFr and l = "''fr''" and r = 0 and
      singular = "''jour''" and plural = "''jours''" and lang = None]
    cf
  have 7: "pluralize engineFr (Finite 0) ''jour'' ''jours'' None = ''jour''" by simp
  from th [where s = engineFr and l = "''fr''" and r = 3 and
      singular = "''jour''" and plural = "''jours''" and lang = None]
    cf
  have 8: "pluralize engineFr (Finite 3) ''jour'' ''jours'' (Some []) = ''jours''" by simp
  from th [where s = engineEs and l = "''fr''" and r = 0 and
      singular = "''dia''" and plural = "''dias''" and lang = None]
    ce
  have 9: "pluralize engineEs (Finite 0) ''dia'' ''dias'' None = ''dias''" by simp
  from th [where s = engineEs and l = "''fr''" and r = 1 and
      singular = "''dia''" and plural = "''dias''" and lang = None]
    ce
  have 10: "pluralize engineEs (Finite 1) ''dia'' ''dias'' (Some []) = ''dia''" by simp
  from 1 2 3 4 5 6 7 8 9 10 show ?thesis by simp
qed

end
